theory Spec2Isabelle
  imports Main "HOL-Library.Word"
begin

unbundle bit_operations_syntax

section \<open>Data model of \<open>ogr/ogrgeometrycollection.cpp\<close>\<close>

text \<open>
  The file implements the class \<open>OGRGeometryCollection\<close>, a container owning an array
  \<open>papoGeoms\<close> of \<open>nGeomCount\<close> pointers to \<open>OGRGeometry\<close> objects. The concrete leaf
  geometry classes (points, curves, surfaces) and the derived container classes
  (multi-point, multi-polygon, ...) live in other files; whatever the collection calls
  on them through virtual methods is a field of the record \<open>geometry_ops\<close> below, so
  every theorem holds for any behaviour of those classes unless a hypothesis says
  otherwise.

  \<^item> \<open>OGRErr\<close> is the error code returned by the methods.
  \<^item> \<open>OGRwkbGeometryType\<close> and \<open>GUInt32\<close> are 32-bit values, \<open>size_t\<close> is 64 bits wide
    (the source's branch \<open>SIZEOF_VOIDP >= 8\<close>).
  \<^item> A pointer \<open>OGRGeometry *\<close> is an \<open>OGRGeometry option\<close>, \<open>None\<close> being \<open>nullptr\<close>.
  \<^item> \<open>papoGeoms\<close> holds the slots \<open>[0, nGeomCount)\<close> of the array, so \<open>nGeomCount\<close> is
    its length; what the array holds beyond \<open>nGeomCount\<close> is never read by the source.
  \<^item> \<open>delete p\<close> is recorded in a list of destroyed objects returned next to the result
    (\<open>delete nullptr\<close> records nothing).
\<close>

datatype OGRErr =
    OGRERR_NONE
  | OGRERR_NOT_ENOUGH_DATA
  | OGRERR_NOT_ENOUGH_MEMORY
  | OGRERR_UNSUPPORTED_GEOMETRY_TYPE
  | OGRERR_UNSUPPORTED_OPERATION
  | OGRERR_CORRUPT_DATA
  | OGRERR_FAILURE
  | OGRERR_UNSUPPORTED_SRS
  | OGRERR_INVALID_HANDLE
  | OGRERR_NON_EXISTING_FEATURE

type_synonym OGRwkbGeometryType = "32 word"
type_synonym GUInt32 = "32 word"
type_synonym size_t = "64 word"

text \<open>
  The dynamic class of a container: the class of this file, or a derived class
  (identified by a number) that overrides \<open>isCompatibleSubType\<close> and \<open>getGeometryType\<close>
  and inherits the rest.
\<close>

datatype OGRClass = OGRGeometryCollection_class | Derived_class nat

datatype 'l OGRGeometry =
    Leaf 'l
  | Coll "'l OGRGeometryCollection"
and 'l OGRGeometryCollection =
    OGRGeometryCollection
      (flags: "32 word")
      (poSRS: "nat option")
      (cls: OGRClass)
      (papoGeoms: "'l OGRGeometry option list")

text \<open>
  The externals. The constants come from the headers \<open>ogr_core.h\<close> and
  \<open>ogr_geometry.h\<close>; the \<open>leaf_\<close> fields are the virtual methods as the leaf classes
  implement them; the \<open>derived_\<close> fields are the two virtual methods as a derived
  container class overrides them; \<open>clone\<close> is the virtual \<open>clone()\<close> of any geometry
  (\<open>None\<close> when it returns \<open>nullptr\<close>); \<open>HomogenizeDimensionalityWith\<close> and
  \<open>OGRGeometry_assign\<close> (the base class's \<open>operator=\<close>) are methods of the base class
  \<open>OGRGeometry\<close>, given the object and the other geometry and returning what they
  leave of both (the assignment: the object and what it destroyed).
\<close>

record 'l geometry_ops =
  OGR_G_3D :: "32 word"
  OGR_G_MEASURED :: "32 word"
  wkbGeometryCollection :: OGRwkbGeometryType
  wkbGeometryCollectionM :: OGRwkbGeometryType
  wkbGeometryCollectionZM :: OGRwkbGeometryType
  wkbGeometryCollection25D :: OGRwkbGeometryType
  leaf_getGeometryType :: "'l \<Rightarrow> OGRwkbGeometryType"
  leaf_flags :: "'l \<Rightarrow> 32 word"
  leaf_IsEmpty :: "'l \<Rightarrow> bool"
  leaf_hasEmptyParts :: "'l \<Rightarrow> bool"
  leaf_removeEmptyParts :: "'l \<Rightarrow> 'l"
  leaf_WkbSize :: "'l \<Rightarrow> size_t"
  leaf_Equals :: "'l \<Rightarrow> 'l OGRGeometry \<Rightarrow> bool"
  leaf_set3D :: "bool \<Rightarrow> 'l \<Rightarrow> 'l"
  leaf_setMeasured :: "bool \<Rightarrow> 'l \<Rightarrow> 'l"
  derived_isCompatibleSubType :: "nat \<Rightarrow> OGRwkbGeometryType \<Rightarrow> bool"
  derived_getGeometryType :: "nat \<Rightarrow> 32 word \<Rightarrow> OGRwkbGeometryType"
  clone :: "'l OGRGeometry \<Rightarrow> 'l OGRGeometry option"
  HomogenizeDimensionalityWith ::
    "'l OGRGeometryCollection \<Rightarrow> 'l OGRGeometry \<Rightarrow> 'l OGRGeometryCollection \<times> 'l OGRGeometry"
  OGRGeometry_assign ::
    "'l OGRGeometryCollection \<Rightarrow> 'l OGRGeometryCollection
       \<Rightarrow> 'l OGRGeometryCollection \<times> 'l OGRGeometry list"

definition set_papoGeoms ::
  "'l OGRGeometryCollection \<Rightarrow> 'l OGRGeometry option list \<Rightarrow> 'l OGRGeometryCollection" where
  "set_papoGeoms this xs = OGRGeometryCollection (flags this) (poSRS this) (cls this) xs"

definition set_flags ::
  "'l OGRGeometryCollection \<Rightarrow> 32 word \<Rightarrow> 'l OGRGeometryCollection" where
  "set_flags this f = OGRGeometryCollection f (poSRS this) (cls this) (papoGeoms this)"

definition nGeomCount :: "'l OGRGeometryCollection \<Rightarrow> int" where
  "nGeomCount this = int (length (papoGeoms this))"

text \<open>\<open>delete p\<close>: the destroyed object, if \<open>p\<close> is not null.\<close>

definition delete_ptr :: "'l OGRGeometry option \<Rightarrow> 'l OGRGeometry list" where
  "delete_ptr p = (case p of None \<Rightarrow> [] | Some g \<Rightarrow> [g])"

text \<open>
  Well-formed objects: no slot of \<open>[0, nGeomCount)\<close> is null, here and in every nested
  container. The source dereferences the slots without a test, so its methods are
  only meaningful on such objects; the embedding leaves their value unspecified
  (\<open>undefined\<close>) where the source would dereference a null pointer.
\<close>

fun wf_collection :: "'l OGRGeometryCollection \<Rightarrow> bool"
and wf_slots :: "'l OGRGeometry option list \<Rightarrow> bool"
and wf_geometry :: "'l OGRGeometry \<Rightarrow> bool" where
  "wf_collection (OGRGeometryCollection f s k xs) = wf_slots xs"
| "wf_slots [] = True"
| "wf_slots (None # rest) = False"
| "wf_slots (Some g # rest) = (wf_geometry g \<and> wf_slots rest)"
| "wf_geometry (Leaf l) = True"
| "wf_geometry (Coll c) = wf_collection c"

subsection \<open>getNumGeometries, getGeometryRef\<close>

definition getNumGeometries :: "'l OGRGeometryCollection \<Rightarrow> int" where
  "getNumGeometries this = nGeomCount this"

definition getGeometryRef :: "'l OGRGeometryCollection \<Rightarrow> int \<Rightarrow> 'l OGRGeometry option" where
  "getGeometryRef this i =
     (if i < 0 \<or> i \<ge> nGeomCount this then None else papoGeoms this ! nat i)"

subsection \<open>getGeometryType, isCompatibleSubType, dimensionality flags\<close>

text \<open>
  \<open>getGeometryType\<close> and \<open>isCompatibleSubType\<close> are the virtual calls on a container:
  the source's body for the class of this file, the override for a derived class.
  \<open>Is3D()\<close> and \<open>IsMeasured()\<close> are the base class's tests of the flag bits.
\<close>

definition getGeometryType :: "'l geometry_ops \<Rightarrow> 'l OGRGeometryCollection \<Rightarrow> OGRwkbGeometryType" where
  "getGeometryType ops this =
     (case cls this of
        OGRGeometryCollection_class \<Rightarrow>
          (if flags this AND OGR_G_3D ops \<noteq> 0 \<and> flags this AND OGR_G_MEASURED ops \<noteq> 0
             then wkbGeometryCollectionZM ops
           else if flags this AND OGR_G_MEASURED ops \<noteq> 0 then wkbGeometryCollectionM ops
           else if flags this AND OGR_G_3D ops \<noteq> 0 then wkbGeometryCollection25D ops
           else wkbGeometryCollection ops)
      | Derived_class k \<Rightarrow> derived_getGeometryType ops k (flags this))"

definition OGRGeometry_getGeometryType :: "'l geometry_ops \<Rightarrow> 'l OGRGeometry \<Rightarrow> OGRwkbGeometryType" where
  "OGRGeometry_getGeometryType ops g =
     (case g of Leaf l \<Rightarrow> leaf_getGeometryType ops l | Coll c \<Rightarrow> getGeometryType ops c)"

definition isCompatibleSubType ::
  "'l geometry_ops \<Rightarrow> 'l OGRGeometryCollection \<Rightarrow> OGRwkbGeometryType \<Rightarrow> bool" where
  "isCompatibleSubType ops this eSubType =
     (case cls this of
        OGRGeometryCollection_class \<Rightarrow> True
      | Derived_class k \<Rightarrow> derived_isCompatibleSubType ops k eSubType)"

definition OGRGeometry_flags :: "'l geometry_ops \<Rightarrow> 'l OGRGeometry \<Rightarrow> 32 word" where
  "OGRGeometry_flags ops g = (case g of Leaf l \<Rightarrow> leaf_flags ops l | Coll c \<Rightarrow> flags c)"

definition Is3D :: "'l geometry_ops \<Rightarrow> 32 word \<Rightarrow> bool" where
  "Is3D ops f = (f AND OGR_G_3D ops \<noteq> 0)"

definition IsMeasured :: "'l geometry_ops \<Rightarrow> 32 word \<Rightarrow> bool" where
  "IsMeasured ops f = (f AND OGR_G_MEASURED ops \<noteq> 0)"

subsection \<open>IsEmpty\<close>

text \<open>
  \<open>IsEmpty\<close> is the method of the container, \<open>IsEmpty_loop\<close> its range-based \<open>for\<close>
  over the remaining slots, \<open>OGRGeometry_IsEmpty\<close> the virtual call
  \<open>poSubGeom->IsEmpty()\<close>.
\<close>

fun IsEmpty :: "'l geometry_ops \<Rightarrow> 'l OGRGeometryCollection \<Rightarrow> bool"
and IsEmpty_loop :: "'l geometry_ops \<Rightarrow> 'l OGRGeometry option list \<Rightarrow> bool"
and OGRGeometry_IsEmpty :: "'l geometry_ops \<Rightarrow> 'l OGRGeometry \<Rightarrow> bool" where
  "IsEmpty ops (OGRGeometryCollection f s k xs) = IsEmpty_loop ops xs"
| "IsEmpty_loop ops [] = True"
| "IsEmpty_loop ops (None # rest) = undefined"
| "IsEmpty_loop ops (Some poSubGeom # rest) =
     (if OGRGeometry_IsEmpty ops poSubGeom = False then False
      else IsEmpty_loop ops rest)"
| "OGRGeometry_IsEmpty ops (Leaf l) = leaf_IsEmpty ops l"
| "OGRGeometry_IsEmpty ops (Coll c) = IsEmpty ops c"

subsection \<open>removeGeometry, stealGeometry\<close>

text \<open>
  The tail of \<open>removeGeometry\<close> for an index in \<open>[0, nGeomCount)\<close>: optional \<open>delete\<close>,
  \<open>memmove\<close> of the slots above the index, \<open>nGeomCount--\<close>.
\<close>

definition removeGeometry_at ::
  "'l OGRGeometryCollection \<Rightarrow> nat \<Rightarrow> bool
     \<Rightarrow> 'l OGRGeometryCollection \<times> 'l OGRGeometry list" where
  "removeGeometry_at this i bDelete =
     (set_papoGeoms this (take i (papoGeoms this) @ drop (Suc i) (papoGeoms this)),
      if bDelete then delete_ptr (papoGeoms this ! i) else [])"

text \<open>
  The special case \<open>iGeom == -1\<close>: \<open>while (nGeomCount > 0) removeGeometry(nGeomCount - 1,
  bDelete)\<close>. The inner call has an index in range, so it runs the tail above; \<open>n\<close> is
  the current \<open>nGeomCount\<close>.
\<close>

fun removeGeometry_all ::
  "nat \<Rightarrow> 'l OGRGeometryCollection \<Rightarrow> bool
     \<Rightarrow> 'l OGRGeometryCollection \<times> 'l OGRGeometry list" where
  "removeGeometry_all 0 this bDelete = (this, [])"
| "removeGeometry_all (Suc n) this bDelete =
     (let (this1, d1) = removeGeometry_at this n bDelete;
          (this2, d2) = removeGeometry_all n this1 bDelete
      in (this2, d1 @ d2))"

definition removeGeometry ::
  "'l OGRGeometryCollection \<Rightarrow> int \<Rightarrow> bool
     \<Rightarrow> OGRErr \<times> 'l OGRGeometryCollection \<times> 'l OGRGeometry list" where
  "removeGeometry this iGeom bDelete =
     (if iGeom < -1 \<or> iGeom \<ge> nGeomCount this then (OGRERR_FAILURE, this, [])
      else if iGeom = -1 then
        (let (this1, d) = removeGeometry_all (length (papoGeoms this)) this bDelete
         in (OGRERR_NONE, this1, d))
      else
        (let (this1, d) = removeGeometry_at this (nat iGeom) bDelete
         in (OGRERR_NONE, this1, d)))"

text \<open>
  \<open>stealGeometry\<close> returns the pointer handed to the caller, the container afterwards
  and the objects destroyed on the way. \<open>removeGeometry(iGeom)\<close> is called with the
  default \<open>bDelete = TRUE\<close> of the class declaration, on a slot that was set to
  \<open>nullptr\<close> just before.
\<close>

definition stealGeometry ::
  "'l OGRGeometryCollection \<Rightarrow> int
     \<Rightarrow> 'l OGRGeometry option \<times> 'l OGRGeometryCollection \<times> 'l OGRGeometry list" where
  "stealGeometry this iGeom =
     (if iGeom < 0 \<or> iGeom \<ge> nGeomCount this then (None, this, [])
      else
        (let poSubGeom = papoGeoms this ! nat iGeom;
             this1 = set_papoGeoms this ((papoGeoms this)[nat iGeom := None]);
             (eErr, this2, d) = removeGeometry this1 iGeom True
         in (poSubGeom, this2, d)))"

subsection \<open>addGeometryDirectly, addGeometry\<close>

text \<open>
  \<open>addGeometryDirectly\<close> returns the error code, the container afterwards and the
  object \<open>poNewGeom\<close> points to afterwards (\<open>HomogenizeDimensionalityWith\<close> may change
  both). \<open>realloc_ok\<close> tells whether \<open>VSI_REALLOC_VERBOSE\<close> returns a non-null pointer.
  \<open>nGeomCount\<close> is compared with \<open>std::numeric_limits<int>::max()\<close>.
\<close>

definition addGeometryDirectly ::
  "'l geometry_ops \<Rightarrow> bool \<Rightarrow> 'l OGRGeometryCollection \<Rightarrow> 'l OGRGeometry
     \<Rightarrow> OGRErr \<times> 'l OGRGeometryCollection \<times> 'l OGRGeometry" where
  "addGeometryDirectly ops realloc_ok this poNewGeom =
     (if \<not> isCompatibleSubType ops this (OGRGeometry_getGeometryType ops poNewGeom)
        then (OGRERR_UNSUPPORTED_GEOMETRY_TYPE, this, poNewGeom)
      else if nGeomCount this = 2147483647 then (OGRERR_FAILURE, this, poNewGeom)
      else
        (let (this1, poNewGeom1) = HomogenizeDimensionalityWith ops this poNewGeom
         in if \<not> realloc_ok then (OGRERR_FAILURE, this1, poNewGeom1)
            else (OGRERR_NONE,
                  set_papoGeoms this1 (papoGeoms this1 @ [Some poNewGeom1]),
                  poNewGeom1)))"

text \<open>
  \<open>addGeometry(const OGRGeometry *)\<close> returns the error code, the container afterwards
  and the objects it destroyed.
\<close>

definition addGeometry ::
  "'l geometry_ops \<Rightarrow> bool \<Rightarrow> 'l OGRGeometryCollection \<Rightarrow> 'l OGRGeometry
     \<Rightarrow> OGRErr \<times> 'l OGRGeometryCollection \<times> 'l OGRGeometry list" where
  "addGeometry ops realloc_ok this poNewGeom =
     (case clone ops poNewGeom of
        None \<Rightarrow> (OGRERR_FAILURE, this, [])
      | Some poClone \<Rightarrow>
          (let (eErr, this1, poClone1) = addGeometryDirectly ops realloc_ok this poClone
           in (eErr, this1, if eErr \<noteq> OGRERR_NONE then delete_ptr (Some poClone1) else [])))"

subsection \<open>operator=\<close>

text \<open>
  The first loop of \<open>operator=\<close>: true when it reaches an element of \<open>other\<close> whose
  type the destination rejects (and the operator returns early).
\<close>

fun assign_rejects ::
  "'l geometry_ops \<Rightarrow> 'l OGRGeometryCollection \<Rightarrow> 'l OGRGeometry option list \<Rightarrow> bool" where
  "assign_rejects ops this [] = False"
| "assign_rejects ops this (None # rest) = undefined"
| "assign_rejects ops this (Some poOtherSubGeom # rest) =
     (if \<not> isCompatibleSubType ops this (OGRGeometry_getGeometryType ops poOtherSubGeom)
        then True
      else assign_rejects ops this rest)"

text \<open>
  \<open>operator=\<close>: \<open>same\<close> is the test \<open>this == &other\<close>, \<open>calloc_ok\<close> tells whether
  \<open>VSI_CALLOC_VERBOSE\<close> returns a non-null pointer. The result is the destination
  afterwards and the objects destroyed; it is \<open>None\<close> when the allocation fails, which
  leaves \<open>papoGeoms = nullptr\<close> beside the \<open>nGeomCount\<close> the base assignment left, a state
  with no readable slot.
\<close>

definition operator_assign ::
  "'l geometry_ops \<Rightarrow> bool \<Rightarrow> bool \<Rightarrow> 'l OGRGeometryCollection \<Rightarrow> 'l OGRGeometryCollection
     \<Rightarrow> ('l OGRGeometryCollection \<times> 'l OGRGeometry list) option" where
  "operator_assign ops same calloc_ok this other =
     (if same then Some (this, [])
      else
        (let (this1, d) = OGRGeometry_assign ops this other
         in if assign_rejects ops this1 (papoGeoms other) then Some (this1, d)
            else if calloc_ok then
              Some (set_papoGeoms this1
                      (map (\<lambda>p. case p of Some g \<Rightarrow> clone ops g) (papoGeoms other)), d)
            else None))"

subsection \<open>empty\<close>

text \<open>
  \<open>empty()\<close> destroys every element of the array and leaves the container with no
  element; it returns the container afterwards and the objects destroyed.
\<close>

definition OGRGeometryCollection_empty ::
  "'l OGRGeometryCollection \<Rightarrow> 'l OGRGeometryCollection \<times> 'l OGRGeometry list" where
  "OGRGeometryCollection_empty this =
     (set_papoGeoms this [], concat (map delete_ptr (papoGeoms this)))"

subsection \<open>Equals\<close>

text \<open>
  \<open>Equals\<close> is the method of the container; \<open>same\<close> is its first test \<open>poOther == this\<close>.
  \<open>Equals_loop\<close> is the final \<open>for\<close> loop from index \<open>iGeom\<close> on, and
  \<open>OGRGeometry_Equals\<close> the virtual call \<open>getGeometryRef(iGeom)->Equals(...)\<close> on an
  element, whose argument is an element of another container and so never the
  element itself. \<open>toGeometryCollection()\<close> is a downcast, unspecified on a leaf.
\<close>

function Equals ::
  "'l geometry_ops \<Rightarrow> bool \<Rightarrow> 'l OGRGeometryCollection \<Rightarrow> 'l OGRGeometry \<Rightarrow> bool"
and Equals_loop ::
  "'l geometry_ops \<Rightarrow> 'l OGRGeometryCollection \<Rightarrow> 'l OGRGeometryCollection \<Rightarrow> nat \<Rightarrow> bool"
and OGRGeometry_Equals ::
  "'l geometry_ops \<Rightarrow> 'l OGRGeometry \<Rightarrow> 'l OGRGeometry option \<Rightarrow> bool" where
  "Equals ops same this poOther =
     (if same then True
      else if OGRGeometry_getGeometryType ops poOther \<noteq> getGeometryType ops this then False
      else if IsEmpty ops this \<and> OGRGeometry_IsEmpty ops poOther then True
      else
        (case poOther of
           Leaf l \<Rightarrow> undefined
         | Coll poOGC \<Rightarrow>
             if getNumGeometries this \<noteq> getNumGeometries poOGC then False
             else Equals_loop ops this poOGC 0))"
| "Equals_loop ops this poOGC iGeom =
     (if int iGeom < nGeomCount this then
        (case getGeometryRef this (int iGeom) of
           None \<Rightarrow> undefined
         | Some g \<Rightarrow>
             if \<not> OGRGeometry_Equals ops g (getGeometryRef poOGC (int iGeom)) then False
             else Equals_loop ops this poOGC (iGeom + 1))
      else True)"
| "OGRGeometry_Equals ops (Leaf l) None = undefined"
| "OGRGeometry_Equals ops (Leaf l) (Some poOther) = leaf_Equals ops l poOther"
| "OGRGeometry_Equals ops (Coll c) None = undefined"
| "OGRGeometry_Equals ops (Coll c) (Some poOther) = Equals ops False c poOther"
  by pat_completeness auto

lemma size_slot_less:
  "i < length xs \<Longrightarrow> xs ! i = Some g \<Longrightarrow> size g < size_list (size_option size) xs"
proof (induction xs arbitrary: i)
  case Nil
  then show ?case by simp
next
  case (Cons p rest)
  show ?case
  proof (cases i)
    case 0
    with Cons.prems show ?thesis by simp
  next
    case (Suc n)
    with Cons.prems have "size g < size_list (size_option size) rest"
      using Cons.IH [of n] by simp
    then show ?thesis by simp
  qed
qed

termination Equals
proof (relation "inv_image (less_than <*lex*> less_than)
    (\<lambda>x. case x of
       Inl (ops, same, this, poOther) \<Rightarrow> (size this, Suc (length (papoGeoms this)))
     | Inr (Inl (ops, this, poOGC, iGeom)) \<Rightarrow> (size this, length (papoGeoms this) - iGeom)
     | Inr (Inr (ops, g, p)) \<Rightarrow> (size g, 0))", goal_cases)
  case 1
  show ?case by (intro wf_inv_image wf_lex_prod wf_less_than)
next
  case (2 ops same this poOther poOGC)
  show ?case by simp
next
  case (3 ops this poOGC iGeom g)
  then have "iGeom < length (papoGeoms this)" and "papoGeoms this ! iGeom = Some g"
    by (auto simp: nGeomCount_def getGeometryRef_def split: if_splits)
  then have "size g < size_list (size_option size) (papoGeoms this)"
    by (rule size_slot_less)
  then show ?case by (cases this) simp
next
  case (4 ops this poOGC iGeom g)
  then show ?case by (auto simp: nGeomCount_def)
next
  case (5 ops c poOther)
  show ?case by simp
qed

declare Equals_loop.simps [simp del]
declare Equals.simps [simp del]

subsection \<open>hasEmptyParts, removeEmptyParts\<close>

fun hasEmptyParts :: "'l geometry_ops \<Rightarrow> 'l OGRGeometryCollection \<Rightarrow> bool"
and hasEmptyParts_loop :: "'l geometry_ops \<Rightarrow> 'l OGRGeometry option list \<Rightarrow> bool"
and OGRGeometry_hasEmptyParts :: "'l geometry_ops \<Rightarrow> 'l OGRGeometry \<Rightarrow> bool" where
  "hasEmptyParts ops (OGRGeometryCollection f s k xs) = hasEmptyParts_loop ops xs"
| "hasEmptyParts_loop ops [] = False"
| "hasEmptyParts_loop ops (None # rest) = undefined"
| "hasEmptyParts_loop ops (Some poSubGeom # rest) =
     (if OGRGeometry_IsEmpty ops poSubGeom \<or> OGRGeometry_hasEmptyParts ops poSubGeom then True
      else hasEmptyParts_loop ops rest)"
| "OGRGeometry_hasEmptyParts ops (Leaf l) = leaf_hasEmptyParts ops l"
| "OGRGeometry_hasEmptyParts ops (Coll c) = hasEmptyParts ops c"

text \<open>
  \<open>removeEmptyParts\<close> returns the container afterwards and the objects destroyed.
  \<open>removeEmptyParts_loop ops this (Suc i)\<close> is the \<open>for\<close> loop at index \<open>i\<close>, counting
  down, and \<open>removeEmptyParts_loop ops this 0\<close> its exit; the loop starts at
  \<open>nGeomCount - 1\<close>, so \<open>i\<close> is an index of the array (the embedding is unspecified
  elsewhere). \<open>OGRGeometry_removeEmptyParts\<close> is the virtual call
  \<open>papoGeoms[i]->removeEmptyParts()\<close>, which changes the element in place.
\<close>

function removeEmptyParts ::
  "'l geometry_ops \<Rightarrow> 'l OGRGeometryCollection
     \<Rightarrow> 'l OGRGeometryCollection \<times> 'l OGRGeometry list"
and removeEmptyParts_loop ::
  "'l geometry_ops \<Rightarrow> 'l OGRGeometryCollection \<Rightarrow> nat
     \<Rightarrow> 'l OGRGeometryCollection \<times> 'l OGRGeometry list"
and OGRGeometry_removeEmptyParts ::
  "'l geometry_ops \<Rightarrow> 'l OGRGeometry \<Rightarrow> 'l OGRGeometry \<times> 'l OGRGeometry list" where
  "removeEmptyParts ops this = removeEmptyParts_loop ops this (length (papoGeoms this))"
| "removeEmptyParts_loop ops this 0 = (this, [])"
| "removeEmptyParts_loop ops this (Suc i) =
     (if i < length (papoGeoms this) then
        (case papoGeoms this ! i of
           None \<Rightarrow> undefined
         | Some g \<Rightarrow>
             (case OGRGeometry_removeEmptyParts ops g of
                (g1, d1) \<Rightarrow>
                  (let this1 = set_papoGeoms this ((papoGeoms this)[i := Some g1]);
                       (this2, d2) =
                         (if OGRGeometry_IsEmpty ops g1
                            then snd (removeGeometry this1 (int i) True)
                          else (this1, []))
                   in (case removeEmptyParts_loop ops this2 i of
                         (this3, d3) \<Rightarrow> (this3, d1 @ d2 @ d3)))))
      else undefined)"
| "OGRGeometry_removeEmptyParts ops (Leaf l) = (Leaf (leaf_removeEmptyParts ops l), [])"
| "OGRGeometry_removeEmptyParts ops (Coll c) =
     (case removeEmptyParts ops c of (c1, d) \<Rightarrow> (Coll c1, d))"
  by pat_completeness auto

lemma removeGeometry_in_range:
  "i < length (papoGeoms this) \<Longrightarrow>
     removeGeometry this (int i) bDelete
       = (OGRERR_NONE,
          set_papoGeoms this (take i (papoGeoms this) @ drop (Suc i) (papoGeoms this)),
          if bDelete then delete_ptr (papoGeoms this ! i) else [])"
  by (simp add: removeGeometry_def removeGeometry_at_def nGeomCount_def)

lemma papoGeoms_set_papoGeoms [simp]: "papoGeoms (set_papoGeoms this xs) = xs"
  by (simp add: set_papoGeoms_def)

lemma size_list_take_Suc:
  "i < length xs \<Longrightarrow> size_list f (take (Suc i) xs) = size_list f (take i xs) + f (xs ! i) + 1"
  by (simp add: take_Suc_conv_app_nth size_list_append)

termination removeEmptyParts
proof (relation "inv_image (less_than <*lex*> less_than)
    (\<lambda>x. case x of
       Inl (ops, this) \<Rightarrow>
         (size_list (size_option size) (papoGeoms this), Suc (length (papoGeoms this)))
     | Inr (Inl (ops, this, n)) \<Rightarrow>
         (size_list (size_option size) (take n (papoGeoms this)), n)
     | Inr (Inr (ops, g)) \<Rightarrow> (size g, 0))", goal_cases)
  case 1
  show ?case by (intro wf_inv_image wf_lex_prod wf_less_than)
next
  case (2 ops this)
  show ?case by simp
next
  case (3 ops this i g)
  then show ?case by (simp add: size_list_take_Suc)
next
  case (4 ops this i g g1 d1 this1 p this2 d2)
  have len: "i < length (papoGeoms this1)"
    using 4 by simp
  have "take i (papoGeoms this2) = take i (papoGeoms this)"
  proof (cases "OGRGeometry_IsEmpty ops g1")
    case True
    with 4 have "this2 = set_papoGeoms this1 (take i (papoGeoms this1) @ drop (Suc i) (papoGeoms this1))"
      using removeGeometry_in_range [OF len, of True] by (cases p) auto
    with 4 show ?thesis by simp
  next
    case False
    with 4 show ?thesis by auto
  qed
  with 4 show ?case by (simp add: size_list_take_Suc)
next
  case (5 ops c)
  show ?case by (cases c) simp
qed

declare removeEmptyParts_loop.simps [simp del]
declare removeEmptyParts.simps [simp del]

text \<open>
  The effect of \<open>removeEmptyParts\<close> on the slots in the words of its description: every
  element first has its own empty parts removed, and is then dropped if it is empty.
\<close>

definition strip_then_drop ::
  "'l geometry_ops \<Rightarrow> 'l OGRGeometry option list \<Rightarrow> 'l OGRGeometry option list" where
  "strip_then_drop ops xs =
     map Some
       (filter (\<lambda>g. \<not> OGRGeometry_IsEmpty ops g)
          (map (\<lambda>p. fst (OGRGeometry_removeEmptyParts ops (the p))) xs))"

text \<open>
  What the methods above need of a leaf class: its \<open>removeEmptyParts\<close> does nothing
  when applied again, and a leaf that is not empty after it has no empty part.
\<close>

definition leaf_removeEmptyParts_contract :: "'l geometry_ops \<Rightarrow> 'l \<Rightarrow> bool" where
  "leaf_removeEmptyParts_contract ops l =
     (leaf_removeEmptyParts ops (leaf_removeEmptyParts ops l) = leaf_removeEmptyParts ops l
      \<and> (leaf_IsEmpty ops (leaf_removeEmptyParts ops l)
         \<or> \<not> leaf_hasEmptyParts ops (leaf_removeEmptyParts ops l)))"

subsection \<open>WkbSize, exportToWkb\<close>

fun WkbSize :: "'l geometry_ops \<Rightarrow> 'l OGRGeometryCollection \<Rightarrow> size_t"
and WkbSize_loop :: "'l geometry_ops \<Rightarrow> size_t \<Rightarrow> 'l OGRGeometry option list \<Rightarrow> size_t"
and OGRGeometry_WkbSize :: "'l geometry_ops \<Rightarrow> 'l OGRGeometry \<Rightarrow> size_t" where
  "WkbSize ops (OGRGeometryCollection f s k xs) = WkbSize_loop ops 9 xs"
| "WkbSize_loop ops nSize [] = nSize"
| "WkbSize_loop ops nSize (None # rest) = undefined"
| "WkbSize_loop ops nSize (Some poGeom # rest) =
     WkbSize_loop ops (nSize + OGRGeometry_WkbSize ops poGeom) rest"
| "OGRGeometry_WkbSize ops (Leaf l) = leaf_WkbSize ops l"
| "OGRGeometry_WkbSize ops (Coll c) = WkbSize ops c"

datatype OGRwkbByteOrder = wkbXDR | wkbNDR

datatype OGRwkbVariant = wkbVariantOldOgc | wkbVariantIso | wkbVariantPostGIS1

record OGRwkbExportOptions =
  eByteOrder :: OGRwkbByteOrder
  eWkbVariant :: OGRwkbVariant

text \<open>
  The output buffer is the memory \<open>pabyData\<close> points into, a function from addresses
  to bytes; \<open>write_bytes\<close> is \<open>memcpy\<close> into it.
\<close>

type_synonym buffer = "size_t \<Rightarrow> 8 word"

fun write_bytes :: "buffer \<Rightarrow> size_t \<Rightarrow> 8 word list \<Rightarrow> buffer" where
  "write_bytes buf a [] = buf"
| "write_bytes buf a (b # bs) = write_bytes (buf(a := b)) (a + 1) bs"

text \<open>
  What \<open>exportToWkb\<close> takes from other files: the value of the enumerator
  \<open>eByteOrder\<close> as a byte, the macros \<open>DB2_V72_UNFIX_BYTE_ORDER\<close>, \<open>OGR_SWAP\<close>, \<open>CPL_SWAP32\<close>,
  \<open>wkbFlatten\<close> and \<open>wkbHasZ\<close>, the constants, the four bytes of a 32-bit value as
  \<open>memcpy\<close> finds them in memory, the default options, the base class's
  \<open>getIsoGeometryType\<close> and \<open>getCoordinateDimension\<close> (of a container and of any
  element), and the leaf classes' \<open>exportToWkb\<close>, given the buffer and the address to
  write at.
\<close>

record 'l wkb_export_env =
  byte_order_value :: "OGRwkbByteOrder \<Rightarrow> 8 word"
  DB2_V72_UNFIX_BYTE_ORDER :: "8 word \<Rightarrow> 8 word"
  OGR_SWAP :: "OGRwkbByteOrder \<Rightarrow> bool"
  CPL_SWAP32 :: "32 word \<Rightarrow> 32 word"
  wkbFlatten :: "32 word \<Rightarrow> 32 word"
  wkbHasZ :: "32 word \<Rightarrow> bool"
  wkbMultiCurve :: "32 word"
  wkbMultiSurface :: "32 word"
  POSTGIS15_MULTICURVE :: "32 word"
  POSTGIS15_MULTISURFACE :: "32 word"
  wkb25DBitInternalUse :: "32 word"
  bytes_in_memory :: "32 word \<Rightarrow> 8 word list"
  defaultOptions :: OGRwkbExportOptions
  getIsoGeometryType :: "'l OGRGeometryCollection \<Rightarrow> 32 word"
  getCoordinateDimension :: "'l OGRGeometryCollection \<Rightarrow> int"
  OGRGeometry_getCoordinateDimension :: "'l OGRGeometry \<Rightarrow> int"
  leaf_exportToWkb :: "'l \<Rightarrow> buffer \<Rightarrow> size_t \<Rightarrow> OGRwkbExportOptions \<Rightarrow> buffer"

text \<open>
  The first part of \<open>exportToWkb\<close>, up to the assignment \<open>nOffset = 9\<close>: the options
  used from there on (\<open>sOptions\<close>) and the buffer with the byte order, the type code
  and the count written at \<open>pabyData\<close>. \<open>psOptions\<close> is \<open>None\<close> for \<open>nullptr\<close>.
\<close>

definition exportToWkb_header ::
  "'l wkb_export_env \<Rightarrow> 'l geometry_ops \<Rightarrow> 'l OGRGeometryCollection \<Rightarrow> buffer \<Rightarrow> size_t
     \<Rightarrow> OGRwkbExportOptions option \<Rightarrow> OGRwkbExportOptions \<times> buffer" where
  "exportToWkb_header env ops this buf pabyData psOptions =
     (let psOptions1 = (case psOptions of None \<Rightarrow> defaultOptions env | Some o1 \<Rightarrow> o1);
          sOptions =
            (if eWkbVariant psOptions1 = wkbVariantOldOgc
                \<and> (wkbFlatten env (getGeometryType ops this) = wkbMultiCurve env
                   \<or> wkbFlatten env (getGeometryType ops this) = wkbMultiSurface env)
               then psOptions1\<lparr>eWkbVariant := wkbVariantIso\<rparr>
             else psOptions1);
          buf1 = buf(pabyData :=
                   DB2_V72_UNFIX_BYTE_ORDER env (byte_order_value env (eByteOrder sOptions)));
          nGType0 = getGeometryType ops this;
          nGType1 =
            (if eWkbVariant sOptions = wkbVariantIso then getIsoGeometryType env this
             else if eWkbVariant sOptions = wkbVariantPostGIS1 then
               (let bIs3D = wkbHasZ env nGType0;
                    t1 = wkbFlatten env nGType0;
                    t2 = (if t1 = wkbMultiCurve env then POSTGIS15_MULTICURVE env
                          else if t1 = wkbMultiSurface env then POSTGIS15_MULTISURFACE env
                          else t1)
                in if bIs3D then t2 OR wkb25DBitInternalUse env else t2)
             else nGType0);
          nGType = (if OGR_SWAP env (eByteOrder sOptions) then CPL_SWAP32 env nGType1 else nGType1);
          buf2 = write_bytes buf1 (pabyData + 1) (bytes_in_memory env nGType);
          nCount = (word_of_int (nGeomCount this) :: 32 word);
          buf3 =
            (if OGR_SWAP env (eByteOrder sOptions)
               then write_bytes buf2 (pabyData + 5) (bytes_in_memory env (CPL_SWAP32 env nCount))
             else write_bytes buf2 (pabyData + 5) (bytes_in_memory env nCount))
      in (sOptions, buf3))"

text \<open>
  \<open>exportToWkb env ops this buf pabyData psOptions\<close> returns the error code, the buffer
  afterwards, the final value of \<open>nOffset\<close> and the indices \<open>iGeom\<close> for which the warning
  about the coordinate dimension is emitted. \<open>pabyData\<close> is the address the method
  writes at. \<open>exportToWkb_loop\<close> is the \<open>for\<close> loop over the remaining slots,
  \<open>OGRGeometry_exportToWkb\<close> the virtual call
  \<open>poSubGeom->exportToWkb(pabyData + nOffset, &sOptions)\<close>, whose result the source
  ignores.
\<close>

fun exportToWkb ::
  "'l wkb_export_env \<Rightarrow> 'l geometry_ops \<Rightarrow> 'l OGRGeometryCollection \<Rightarrow> buffer \<Rightarrow> size_t
     \<Rightarrow> OGRwkbExportOptions option \<Rightarrow> OGRErr \<times> buffer \<times> size_t \<times> nat list"
and exportToWkb_loop ::
  "'l wkb_export_env \<Rightarrow> 'l geometry_ops \<Rightarrow> int \<Rightarrow> OGRwkbExportOptions
     \<Rightarrow> 'l OGRGeometry option list \<Rightarrow> buffer \<Rightarrow> size_t \<Rightarrow> size_t \<Rightarrow> nat
     \<Rightarrow> buffer \<times> size_t \<times> nat list"
and OGRGeometry_exportToWkb ::
  "'l wkb_export_env \<Rightarrow> 'l geometry_ops \<Rightarrow> 'l OGRGeometry \<Rightarrow> buffer \<Rightarrow> size_t
     \<Rightarrow> OGRwkbExportOptions \<Rightarrow> buffer" where
  "exportToWkb env ops (OGRGeometryCollection f s k xs) buf pabyData psOptions =
     (case exportToWkb_header env ops (OGRGeometryCollection f s k xs) buf pabyData psOptions of
        (sOptions, buf3) \<Rightarrow>
          (case exportToWkb_loop env ops
                  (getCoordinateDimension env (OGRGeometryCollection f s k xs))
                  sOptions xs buf3 pabyData 9 0 of
             (buf4, nOffset, warnings) \<Rightarrow> (OGRERR_NONE, buf4, nOffset, warnings)))"
| "exportToWkb_loop env ops dim sOptions [] buf pabyData nOffset iGeom = (buf, nOffset, [])"
| "exportToWkb_loop env ops dim sOptions (None # rest) buf pabyData nOffset iGeom = undefined"
| "exportToWkb_loop env ops dim sOptions (Some poSubGeom # rest) buf pabyData nOffset iGeom =
     (case exportToWkb_loop env ops dim sOptions rest
             (OGRGeometry_exportToWkb env ops poSubGeom buf (pabyData + nOffset) sOptions)
             pabyData (nOffset + OGRGeometry_WkbSize ops poSubGeom) (iGeom + 1) of
        (buf2, nOffset2, ws) \<Rightarrow>
          (buf2, nOffset2,
           (if OGRGeometry_getCoordinateDimension env poSubGeom \<noteq> dim then [iGeom] else [])
             @ ws))"
| "OGRGeometry_exportToWkb env ops (Leaf l) buf a sOptions = leaf_exportToWkb env l buf a sOptions"
| "OGRGeometry_exportToWkb env ops (Coll c) buf a sOptions =
     fst (snd (exportToWkb env ops c buf a (Some sOptions)))"

text \<open>
  The encoding in the words of the wire format: one byte for the byte order, four
  for the type code, four for the count of elements, then the encodings of the
  elements one after the other. The nine bytes of the preamble are read off what the
  first part of \<open>exportToWkb\<close> leaves at the addresses 0 to 8 of a zeroed buffer; the
  elements are encoded with the options that first part goes on with; \<open>leaf_bytes\<close>
  gives the encoding of a leaf.
\<close>

definition wkb_preamble ::
  "'l wkb_export_env \<Rightarrow> 'l geometry_ops \<Rightarrow> 'l OGRGeometryCollection
     \<Rightarrow> OGRwkbExportOptions option \<Rightarrow> 8 word list" where
  "wkb_preamble env ops this psOptions =
     map (snd (exportToWkb_header env ops this (\<lambda>a. 0) 0 psOptions)) [0, 1, 2, 3, 4, 5, 6, 7, 8]"

fun wkb_encoding ::
  "'l wkb_export_env \<Rightarrow> 'l geometry_ops \<Rightarrow> ('l \<Rightarrow> OGRwkbExportOptions \<Rightarrow> 8 word list)
     \<Rightarrow> 'l OGRGeometryCollection \<Rightarrow> OGRwkbExportOptions option \<Rightarrow> 8 word list"
and wkb_encoding_elements ::
  "'l wkb_export_env \<Rightarrow> 'l geometry_ops \<Rightarrow> ('l \<Rightarrow> OGRwkbExportOptions \<Rightarrow> 8 word list)
     \<Rightarrow> OGRwkbExportOptions \<Rightarrow> 'l OGRGeometry option list \<Rightarrow> 8 word list"
and OGRGeometry_wkb_encoding ::
  "'l wkb_export_env \<Rightarrow> 'l geometry_ops \<Rightarrow> ('l \<Rightarrow> OGRwkbExportOptions \<Rightarrow> 8 word list)
     \<Rightarrow> 'l OGRGeometry \<Rightarrow> OGRwkbExportOptions \<Rightarrow> 8 word list" where
  "wkb_encoding env ops leaf_bytes (OGRGeometryCollection f s k xs) psOptions =
     wkb_preamble env ops (OGRGeometryCollection f s k xs) psOptions
     @ wkb_encoding_elements env ops leaf_bytes
         (fst (exportToWkb_header env ops (OGRGeometryCollection f s k xs) (\<lambda>a. 0) 0 psOptions))
         xs"
| "wkb_encoding_elements env ops leaf_bytes sOptions [] = []"
| "wkb_encoding_elements env ops leaf_bytes sOptions (None # rest) = undefined"
| "wkb_encoding_elements env ops leaf_bytes sOptions (Some g # rest) =
     OGRGeometry_wkb_encoding env ops leaf_bytes g sOptions
     @ wkb_encoding_elements env ops leaf_bytes sOptions rest"
| "OGRGeometry_wkb_encoding env ops leaf_bytes (Leaf l) sOptions = leaf_bytes l sOptions"
| "OGRGeometry_wkb_encoding env ops leaf_bytes (Coll c) sOptions =
     wkb_encoding env ops leaf_bytes c (Some sOptions)"

subsection \<open>importFromWkbInternal, importFromWkb\<close>

text \<open>
  What the decoder takes from other files. \<open>pabyData\<close> is the list of the bytes from the
  pointer on, so \<open>pabyData + n\<close> is \<open>drop n\<close>; \<open>nSize\<close> is a \<open>size_t\<close>, \<open>static_cast<size_t>(-1)\<close>
  being the word \<open>- 1\<close>.
  \<^item> \<open>importPreambleOfCollectionFromWkb\<close> (base class), called with a minimal element
    size of 9: given the object, the bytes, \<open>nSize\<close> and the variant, it returns the error
    code, the object afterwards, the objects it destroyed, and the new values of
    \<open>nSize\<close>, \<open>nDataOffset\<close>, \<open>eByteOrder\<close> and \<open>nGeomCountNew\<close>.
  \<^item> \<open>OGRReadWKBGeometryType\<close>: the error code and the type read.
  \<^item> \<open>IsSubClassOf_wkbGeometryCollection t\<close> is \<open>OGR_GT_IsSubClassOf(t, wkbGeometryCollection)\<close>.
  \<^item> \<open>createGeometry\<close> (of \<open>OGRGeometryFactory\<close>), called for such a type only: the new
    container, \<open>None\<close> for \<open>nullptr\<close>.
  \<^item> \<open>createFromWkb\<close> (of \<open>OGRGeometryFactory\<close>), called for the other types only: the error
    code, the new leaf (\<open>None\<close> for \<open>nullptr\<close>) and \<open>nSubGeomBytesConsumed\<close>.
  \<^item> \<open>VSI_CALLOC_ok n\<close>: whether \<open>VSI_CALLOC_VERBOSE\<close> for \<open>n\<close> slots returns a non-null pointer.
\<close>

record 'l wkb_import_env =
  importPreambleOfCollectionFromWkb ::
    "'l OGRGeometryCollection \<Rightarrow> 8 word list \<Rightarrow> size_t \<Rightarrow> OGRwkbVariant
       \<Rightarrow> OGRErr \<times> 'l OGRGeometryCollection \<times> 'l OGRGeometry list
          \<times> size_t \<times> size_t \<times> OGRwkbByteOrder \<times> int"
  OGRReadWKBGeometryType :: "8 word list \<Rightarrow> OGRwkbVariant \<Rightarrow> OGRErr \<times> OGRwkbGeometryType"
  IsSubClassOf_wkbGeometryCollection :: "OGRwkbGeometryType \<Rightarrow> bool"
  createGeometry :: "OGRwkbGeometryType \<Rightarrow> 'l OGRGeometryCollection option"
  createFromWkb :: "8 word list \<Rightarrow> size_t \<Rightarrow> OGRwkbVariant \<Rightarrow> OGRErr \<times> 'l option \<times> size_t"
  VSI_CALLOC_ok :: "int \<Rightarrow> bool"

text \<open>
  The promotion of a freshly decoded leaf to the dimensionality of the container
  (\<open>set3D(TRUE)\<close>, \<open>setMeasured(TRUE)\<close>).
\<close>

definition promote_leaf :: "'l geometry_ops \<Rightarrow> 32 word \<Rightarrow> 'l \<Rightarrow> 'l" where
  "promote_leaf ops f l =
     (let l1 = (if Is3D ops f \<and> \<not> Is3D ops (leaf_flags ops l) then leaf_set3D ops True l else l)
      in if IsMeasured ops f \<and> \<not> IsMeasured ops (leaf_flags ops l1)
           then leaf_setMeasured ops True l1
         else l1)"

text \<open>
  The end of a loop iteration, with \<open>poSubGeom\<close> decoded: the slot is set, and the
  flags of the container take the bits of the element.
\<close>

definition store_element ::
  "'l geometry_ops \<Rightarrow> 'l OGRGeometryCollection \<Rightarrow> nat \<Rightarrow> 'l OGRGeometry
     \<Rightarrow> 'l OGRGeometryCollection" where
  "store_element ops this iGeom poSubGeom =
     (let this1 = set_papoGeoms this ((papoGeoms this)[iGeom := Some poSubGeom]);
          this2 = (if Is3D ops (OGRGeometry_flags ops poSubGeom)
                     then set_flags this1 (flags this1 OR OGR_G_3D ops) else this1)
      in if IsMeasured ops (OGRGeometry_flags ops poSubGeom)
           then set_flags this2 (flags this2 OR OGR_G_MEASURED ops) else this2)"

text \<open>
  \<open>importFromWkbInternal\<close> returns the error code, the object afterwards,
  \<open>nBytesConsumedOut\<close> and the objects destroyed (a destroyed container stands for
  what it owns). \<open>importFromWkb_loop\<close> is the \<open>for\<close> loop from index \<open>iGeom\<close> on, with the
  current \<open>nSize\<close> and \<open>nDataOffset\<close>; \<open>nGeomCount = iGeom\<close> keeps the first \<open>iGeom\<close> slots.
  \<open>nRecLevel\<close> is an \<open>int\<close> of 32 bits; the calls that start at level 0 never reach the
  point where the addition would overflow.
\<close>

function importFromWkbInternal ::
  "'l wkb_import_env \<Rightarrow> 'l geometry_ops \<Rightarrow> 'l OGRGeometryCollection \<Rightarrow> 8 word list \<Rightarrow> size_t
     \<Rightarrow> 32 word \<Rightarrow> OGRwkbVariant
     \<Rightarrow> OGRErr \<times> 'l OGRGeometryCollection \<times> size_t \<times> 'l OGRGeometry list"
and importFromWkb_loop ::
  "'l wkb_import_env \<Rightarrow> 'l geometry_ops \<Rightarrow> 'l OGRGeometryCollection \<Rightarrow> 8 word list \<Rightarrow> size_t
     \<Rightarrow> 32 word \<Rightarrow> OGRwkbVariant \<Rightarrow> size_t \<Rightarrow> nat
     \<Rightarrow> OGRErr \<times> 'l OGRGeometryCollection \<times> size_t \<times> 'l OGRGeometry list" where
  "importFromWkbInternal env ops this pabyData nSize nRecLevel eVariant =
     (if nRecLevel = 32 then (OGRERR_CORRUPT_DATA, this, 0, [])
      else
        (case importPreambleOfCollectionFromWkb env this pabyData nSize eVariant of
           (eErr, this1, d0, nSize1, nDataOffset, eOrder, nGeomCountNew) \<Rightarrow>
             if eErr \<noteq> OGRERR_NONE then (eErr, this1, 0, d0)
             else if nGeomCountNew \<noteq> 0 \<and> \<not> VSI_CALLOC_ok env nGeomCountNew
               then (OGRERR_NOT_ENOUGH_MEMORY, set_papoGeoms this1 [], 0, d0)
             else
               (case importFromWkb_loop env ops
                       (set_papoGeoms this1 (replicate (nat nGeomCountNew) None))
                       pabyData nSize1 nRecLevel eVariant nDataOffset 0 of
                  (eErr2, this2, nBytesConsumedOut, d) \<Rightarrow>
                    (eErr2, this2, nBytesConsumedOut, d0 @ d))))"
| "importFromWkb_loop env ops this pabyData nSize nRecLevel eVariant nDataOffset iGeom =
     (if int iGeom < nGeomCount this then
        (let pabySubData = drop (unat nDataOffset) pabyData
         in if nSize < 9 \<and> nSize \<noteq> - 1 then (OGRERR_NOT_ENOUGH_DATA, this, 0, [])
            else
              (case OGRReadWKBGeometryType env pabySubData eVariant of
                 (eErr, eSubGeomType) \<Rightarrow>
                   if eErr \<noteq> OGRERR_NONE then (eErr, this, 0, [])
                   else if \<not> isCompatibleSubType ops this eSubGeomType
                     then (OGRERR_CORRUPT_DATA,
                           set_papoGeoms this (take iGeom (papoGeoms this)), 0, [])
                   else
                     (case
                        (if IsSubClassOf_wkbGeometryCollection env eSubGeomType then
                           (case createGeometry env eSubGeomType of
                              None \<Rightarrow> (OGRERR_FAILURE, None, 0, [])
                            | Some poGC \<Rightarrow>
                                (case importFromWkbInternal env ops poGC pabySubData nSize
                                        (nRecLevel + 1) eVariant of
                                   (e, poGC1, n, d) \<Rightarrow> (e, Some (Coll poGC1), n, d)))
                         else
                           (case createFromWkb env pabySubData nSize eVariant of
                              (e, p, n) \<Rightarrow>
                                if e = OGRERR_NONE then
                                  (case p of
                                     None \<Rightarrow> undefined
                                   | Some l \<Rightarrow>
                                       (e, Some (Leaf (promote_leaf ops (flags this) l)), n, []))
                                else (e, map_option Leaf p, n, [])))
                      of
                        (eErr1, poSubGeom, nSubGeomBytesConsumed, d1) \<Rightarrow>
                          if eErr1 \<noteq> OGRERR_NONE
                            then (eErr1, set_papoGeoms this (take iGeom (papoGeoms this)), 0,
                                  d1 @ delete_ptr poSubGeom)
                          else
                            (case poSubGeom of
                               None \<Rightarrow> undefined
                             | Some g \<Rightarrow>
                                 (case importFromWkb_loop env ops (store_element ops this iGeom g)
                                         pabyData
                                         (if nSize \<noteq> - 1 then nSize - nSubGeomBytesConsumed
                                          else nSize)
                                         nRecLevel eVariant
                                         (nDataOffset + nSubGeomBytesConsumed) (iGeom + 1) of
                                    (eErr2, this2, nBytesConsumedOut, d2) \<Rightarrow>
                                      (eErr2, this2, nBytesConsumedOut, d1 @ d2))))))
      else (OGRERR_NONE, this, nDataOffset, []))"
  by pat_completeness auto

lemma length_papoGeoms_store_element [simp]:
  "length (papoGeoms (store_element ops this iGeom g)) = length (papoGeoms this)"
  by (simp add: store_element_def Let_def set_flags_def)

lemma unat_31_minus:
  "(nRecLevel :: 32 word) \<noteq> 32 \<Longrightarrow> unat (31 - nRecLevel) < unat (32 - nRecLevel)"
proof -
  assume "nRecLevel \<noteq> 32"
  then have "32 - nRecLevel \<noteq> 0" by simp
  then have "unat (32 - nRecLevel - 1) = unat (32 - nRecLevel) - 1"
    by (rule unat_minus_one)
  moreover have "0 < unat (32 - nRecLevel)"
    using \<open>32 - nRecLevel \<noteq> 0\<close> by (simp add: unat_gt_0)
  moreover have "32 - nRecLevel - 1 = 31 - nRecLevel" by simp
  ultimately show ?thesis by simp
qed

termination importFromWkbInternal
proof (relation "inv_image (less_than <*lex*> less_than)
    (\<lambda>x. case x of
       Inl (env, ops, this, pabyData, nSize, nRecLevel, eVariant) \<Rightarrow>
         (2 * unat (32 - nRecLevel), 0)
     | Inr (env, ops, this, pabyData, nSize, nRecLevel, eVariant, nDataOffset, iGeom) \<Rightarrow>
         (2 * unat (31 - nRecLevel) + 1, length (papoGeoms this) - iGeom))", goal_cases)
  case 1
  show ?case by (intro wf_inv_image wf_lex_prod wf_less_than)
next
  case 2
  then show ?case using unat_31_minus by fastforce
next
  case 3
  then show ?case by (simp add: algebra_simps)
next
  case 4
  then show ?case by (auto simp: nGeomCount_def)
qed

declare importFromWkbInternal.simps [simp del]
declare importFromWkb_loop.simps [simp del]

definition importFromWkb ::
  "'l wkb_import_env \<Rightarrow> 'l geometry_ops \<Rightarrow> 'l OGRGeometryCollection \<Rightarrow> 8 word list \<Rightarrow> size_t
     \<Rightarrow> OGRwkbVariant
     \<Rightarrow> OGRErr \<times> 'l OGRGeometryCollection \<times> size_t \<times> 'l OGRGeometry list" where
  "importFromWkb env ops this pabyData nSize eVariant =
     importFromWkbInternal env ops this pabyData nSize 0 eVariant"

subsection \<open>importFromWktInternal, importFromWkt\<close>

text \<open>
  What the text decoder takes from other files. The input \<open>*ppszInput\<close> is the string
  from the pointer on.
  \<^item> \<open>importPreambleFromWkt\<close> (base class): the error code, the object afterwards, the
    objects it destroyed, the new \<open>*ppszInput\<close>, and \<open>bHasZ\<close>, \<open>bHasM\<close>, \<open>bIsEmpty\<close>.
  \<^item> \<open>OGRWktReadToken\<close>: the token \<open>szToken\<close> and the input after it.
  \<^item> \<open>is_GEOMETRYCOLLECTION tok\<close> is \<open>STARTS_WITH_CI(szToken, "GEOMETRYCOLLECTION")\<close>.
  \<^item> \<open>createFromWkt\<close> (of \<open>OGRGeometryFactory\<close>): the error code, \<open>poGeom\<close> and the new
    input.
  \<^item> \<open>VSI_REALLOC_ok n\<close>: whether the \<open>VSI_REALLOC_VERBOSE\<close> of \<open>addGeometryDirectly\<close> on a
    container of \<open>n\<close> elements returns a non-null pointer.
\<close>

record 'l wkt_import_env =
  importPreambleFromWkt ::
    "'l OGRGeometryCollection \<Rightarrow> string
       \<Rightarrow> OGRErr \<times> 'l OGRGeometryCollection \<times> 'l OGRGeometry list \<times> string
          \<times> bool \<times> bool \<times> bool"
  OGRWktReadToken :: "string \<Rightarrow> string \<times> string"
  is_GEOMETRYCOLLECTION :: "string \<Rightarrow> bool"
  createFromWkt :: "string \<Rightarrow> OGRErr \<times> 'l OGRGeometry option \<times> string"
  VSI_REALLOC_ok :: "nat \<Rightarrow> bool"

text \<open>\<open>szToken[0]\<close>, the terminating zero for the empty token.\<close>

definition first_char :: "string \<Rightarrow> char" where
  "first_char tok = (case tok of [] \<Rightarrow> CHR 0x00 | c # cs \<Rightarrow> c)"

text \<open>
  The first half of the body of the \<open>do\<close> loop: the element is read, by the decoder
  itself one level deeper (\<open>sub\<close>, on a new empty container) when the token is the
  name of a collection, by the factory otherwise. The result is the error code,
  \<open>poGeom\<close>, the new \<open>pszInput\<close> and the objects destroyed; \<open>None\<close> when the nested
  decoder does not return.
\<close>

definition importFromWkt_element ::
  "'l wkt_import_env
     \<Rightarrow> ('l OGRGeometryCollection \<Rightarrow> string
          \<Rightarrow> (OGRErr \<times> 'l OGRGeometryCollection \<times> string \<times> 'l OGRGeometry list) option)
     \<Rightarrow> string
     \<Rightarrow> (OGRErr \<times> 'l OGRGeometry option \<times> string \<times> 'l OGRGeometry list) option" where
  "importFromWkt_element env sub pszInput =
     (if is_GEOMETRYCOLLECTION env (fst (OGRWktReadToken env pszInput)) then
        Option.bind (sub (OGRGeometryCollection 0 None OGRGeometryCollection_class []) pszInput)
          (\<lambda>(eErr, poGC, pszInput1, d). Some (eErr, Some (Coll poGC), pszInput1, d))
      else
        (case createFromWkt env pszInput of
           (eErr, poGeom, pszInput1) \<Rightarrow> Some (eErr, poGeom, pszInput1, [])))"

text \<open>
  The \<open>do\<close> loop. Its state is the container and \<open>pszInput\<close>; \<open>ppszInput\<close> is the value of
  \<open>*ppszInput\<close> on entry, which an error return leaves in place. The result is the
  error code, the container, \<open>*ppszInput\<close> and the objects destroyed. The loop ends
  only if the tokens run out, which depends on the tokenizer: the result is \<open>None\<close>
  when it does not end.
\<close>

partial_function (option) importFromWkt_loop ::
  "'l wkt_import_env \<Rightarrow> 'l geometry_ops
     \<Rightarrow> ('l OGRGeometryCollection \<Rightarrow> string
          \<Rightarrow> (OGRErr \<times> 'l OGRGeometryCollection \<times> string \<times> 'l OGRGeometry list) option)
     \<Rightarrow> string \<Rightarrow> 'l OGRGeometryCollection \<Rightarrow> string
     \<Rightarrow> (OGRErr \<times> 'l OGRGeometryCollection \<times> string \<times> 'l OGRGeometry list) option" where
  "importFromWkt_loop env ops sub ppszInput this pszInput =
     Option.bind (importFromWkt_element env sub pszInput)
       (\<lambda>(eErr, poGeom, pszInput1, d).
          (case
             (if eErr = OGRERR_NONE then
                (case poGeom of
                   None \<Rightarrow> undefined
                 | Some g \<Rightarrow>
                     if \<not> Is3D ops (flags this) \<and> IsMeasured ops (flags this)
                        \<and> \<not> IsMeasured ops (OGRGeometry_flags ops g)
                       then (OGRERR_CORRUPT_DATA, this, poGeom)
                     else
                       (case addGeometryDirectly ops
                               (VSI_REALLOC_ok env (length (papoGeoms this))) this g of
                          (e, this1, g1) \<Rightarrow> (e, this1, Some g1)))
              else (eErr, this, poGeom))
           of
             (eErr1, this1, poGeom1) \<Rightarrow>
               if eErr1 \<noteq> OGRERR_NONE
                 then Some (eErr1, this1, ppszInput, d @ delete_ptr poGeom1)
               else
                 (case OGRWktReadToken env pszInput1 of
                    (szToken, pszInput2) \<Rightarrow>
                      if first_char szToken = CHR '','' then
                        Option.bind (importFromWkt_loop env ops sub ppszInput this1 pszInput2)
                          (\<lambda>(eErr2, this2, ppszInput2, d2). Some (eErr2, this2, ppszInput2, d @ d2))
                      else if first_char szToken \<noteq> CHR '')''
                        then Some (OGRERR_CORRUPT_DATA, this1, ppszInput, d)
                      else Some (OGRERR_NONE, this1, pszInput2, d))))"

text \<open>
  \<open>importFromWktInternal\<close> returns the error code, the container, \<open>*ppszInput\<close> and the
  objects destroyed, or \<open>None\<close> when the loop does not end.
\<close>

function importFromWktInternal ::
  "'l wkt_import_env \<Rightarrow> 'l geometry_ops \<Rightarrow> 'l OGRGeometryCollection \<Rightarrow> string \<Rightarrow> 32 word
     \<Rightarrow> (OGRErr \<times> 'l OGRGeometryCollection \<times> string \<times> 'l OGRGeometry list) option" where
  "importFromWktInternal env ops this ppszInput nRecLevel =
     (if nRecLevel = 32 then Some (OGRERR_CORRUPT_DATA, this, ppszInput, [])
      else
        (case importPreambleFromWkt env this ppszInput of
           (eErr, this1, d0, ppszInput1, bHasZ, bHasM, bIsEmpty) \<Rightarrow>
             if eErr \<noteq> OGRERR_NONE then Some (eErr, this1, ppszInput1, d0)
             else
               (let this2 = (if bHasZ then set_flags this1 (flags this1 OR OGR_G_3D ops)
                             else this1);
                    this3 = (if bHasM then set_flags this2 (flags this2 OR OGR_G_MEASURED ops)
                             else this2)
                in if bIsEmpty then Some (OGRERR_NONE, this3, ppszInput1, d0)
                   else
                     Option.bind
                       (importFromWkt_loop env ops
                          (\<lambda>poGC pszInput. importFromWktInternal env ops poGC pszInput
                                              (nRecLevel + 1))
                          ppszInput1 this3 (snd (OGRWktReadToken env ppszInput1)))
                       (\<lambda>(eErr2, this4, ppszInput2, d). Some (eErr2, this4, ppszInput2, d0 @ d)))))"
  by pat_completeness auto

termination importFromWktInternal
proof (relation "measure (\<lambda>(env, ops, this, ppszInput, nRecLevel). unat (32 - nRecLevel))",
    goal_cases)
  case 1
  show ?case by simp
next
  case (2 env ops this ppszInput nRecLevel)
  then have "nRecLevel \<noteq> 32" by simp
  then have "unat (31 - nRecLevel) < unat (32 - nRecLevel)" by (rule unat_31_minus)
  moreover have "32 - (nRecLevel + 1) = 31 - nRecLevel" by simp
  ultimately show ?case by simp
qed

declare importFromWktInternal.simps [simp del]

definition importFromWkt ::
  "'l wkt_import_env \<Rightarrow> 'l geometry_ops \<Rightarrow> 'l OGRGeometryCollection \<Rightarrow> string
     \<Rightarrow> (OGRErr \<times> 'l OGRGeometryCollection \<times> string \<times> 'l OGRGeometry list) option" where
  "importFromWkt env ops this ppszInput = importFromWktInternal env ops this ppszInput 0"

section \<open>Sample objects\<close>

text \<open>
  A small instance of the externals used to run the definitions on concrete objects:
  four leaf objects (a point, an empty point, a polygon with an empty ring, and that
  polygon once its empty ring is removed) and one derived container class, number 0,
  that accepts points only. The constants have the values of the headers. The
  base class's assignment calls \<open>empty()\<close> on the destination, which \<open>operator=\<close> above
  relies on when it replaces \<open>papoGeoms\<close> without releasing it, and then takes the flags
  and the spatial reference of the source.
\<close>

datatype sample_leaf = Point | EmptyPoint | PolygonEmptyRing | Polygon

definition sample_ops :: "sample_leaf geometry_ops" where
  "sample_ops = \<lparr>
     OGR_G_3D = 0x2,
     OGR_G_MEASURED = 0x4,
     wkbGeometryCollection = 7,
     wkbGeometryCollectionM = 2007,
     wkbGeometryCollectionZM = 3007,
     wkbGeometryCollection25D = 0x80000007,
     leaf_getGeometryType = (\<lambda>l. if l = Point \<or> l = EmptyPoint then 1 else 3),
     leaf_flags = (\<lambda>l. 0),
     leaf_IsEmpty = (\<lambda>l. l = EmptyPoint),
     leaf_hasEmptyParts = (\<lambda>l. l = PolygonEmptyRing),
     leaf_removeEmptyParts = (\<lambda>l. if l = PolygonEmptyRing then Polygon else l),
     leaf_WkbSize = (\<lambda>l. if l = Point \<or> l = EmptyPoint then 21 else 93),
     leaf_Equals = (\<lambda>l g. g = Leaf l),
     leaf_set3D = (\<lambda>b l. l),
     leaf_setMeasured = (\<lambda>b l. l),
     derived_isCompatibleSubType = (\<lambda>k t. t = 1),
     derived_getGeometryType = (\<lambda>k f. 4),
     clone = Some,
     HomogenizeDimensionalityWith = (\<lambda>this g. (this, g)),
     OGRGeometry_assign = (\<lambda>this other.
        case OGRGeometryCollection_empty this of
          (this1, d) \<Rightarrow>
            (OGRGeometryCollection (flags other) (poSRS other) (cls this1) (papoGeoms this1), d))
   \<rparr>"

definition mk_collection :: "'l OGRGeometry list \<Rightarrow> 'l OGRGeometryCollection" where
  "mk_collection gs = OGRGeometryCollection 0 None OGRGeometryCollection_class (map Some gs)"

text \<open>
  A sample of the externals of \<open>exportToWkb\<close>, for a little-endian host: the macros
  with the meaning their names give, and leaves that write their byte order followed
  by zeros, as many bytes as their \<open>WkbSize()\<close>.
\<close>

definition sample_leaf_bytes :: "sample_leaf \<Rightarrow> OGRwkbExportOptions \<Rightarrow> 8 word list" where
  "sample_leaf_bytes l sOptions =
     (if eByteOrder sOptions = wkbXDR then 0 else 1)
     # replicate (if l = Point \<or> l = EmptyPoint then 20 else 92) 0"

definition sample_wkb_export_env :: "sample_leaf wkb_export_env" where
  "sample_wkb_export_env = \<lparr>
     byte_order_value = (\<lambda>b. if b = wkbXDR then 0 else 1),
     DB2_V72_UNFIX_BYTE_ORDER = (\<lambda>b. b),
     OGR_SWAP = (\<lambda>b. b = wkbXDR),
     CPL_SWAP32 = (\<lambda>x. push_bit 24 (x AND 0xff) OR push_bit 8 (x AND 0xff00)
                         OR drop_bit 8 (x AND 0xff0000) OR drop_bit 24 x),
     wkbFlatten = (\<lambda>t. t AND 0x7fffffff),
     wkbHasZ = (\<lambda>t. t AND 0x80000000 \<noteq> 0),
     wkbMultiCurve = 11,
     wkbMultiSurface = 12,
     POSTGIS15_MULTICURVE = 14,
     POSTGIS15_MULTISURFACE = 15,
     wkb25DBitInternalUse = 0x80000000,
     bytes_in_memory = (\<lambda>x. [ucast x, ucast (drop_bit 8 x), ucast (drop_bit 16 x),
                              ucast (drop_bit 24 x)]),
     defaultOptions = \<lparr>eByteOrder = wkbNDR, eWkbVariant = wkbVariantOldOgc\<rparr>,
     getIsoGeometryType = (\<lambda>c. 7),
     getCoordinateDimension = (\<lambda>c. 2),
     OGRGeometry_getCoordinateDimension = (\<lambda>g. 2),
     leaf_exportToWkb = (\<lambda>l buf a sOptions. write_bytes buf a (sample_leaf_bytes l sOptions))
   \<rparr>"

text \<open>
  A sample binary decoder for little-endian input with counts below 256: the preamble
  takes the count from the byte at offset 5 and checks the size against 9 bytes per
  element; the type of an element is the byte at offset 1, a point (1) of 21 bytes
  or a collection (7), anything else being unsupported.
\<close>

definition sample_byte :: "8 word list \<Rightarrow> nat \<Rightarrow> 8 word" where
  "sample_byte bs i = (if i < length bs then bs ! i else 0)"

definition sample_wkb_import_env :: "sample_leaf wkb_import_env" where
  "sample_wkb_import_env = \<lparr>
     importPreambleOfCollectionFromWkb = (\<lambda>this bs nSize v.
        if nSize < 9 \<and> nSize \<noteq> - 1
          then (OGRERR_NOT_ENOUGH_DATA, this, [], nSize, 0, wkbNDR, 0)
        else if nSize \<noteq> - 1 \<and> nSize - 9 < 9 * ucast (sample_byte bs 5)
          then (OGRERR_NOT_ENOUGH_DATA, set_papoGeoms this [], [], nSize, 0, wkbNDR, 0)
        else (OGRERR_NONE, set_papoGeoms this [], [],
              (if nSize \<noteq> - 1 then nSize - 9 else nSize), 9, wkbNDR,
              uint (sample_byte bs 5))),
     OGRReadWKBGeometryType = (\<lambda>bs v.
        if sample_byte bs 1 = 1 then (OGRERR_NONE, 1)
        else if sample_byte bs 1 = 7 then (OGRERR_NONE, 7)
        else (OGRERR_UNSUPPORTED_GEOMETRY_TYPE, 0)),
     IsSubClassOf_wkbGeometryCollection = (\<lambda>t. t = 7),
     createGeometry = (\<lambda>t. Some (OGRGeometryCollection 0 None OGRGeometryCollection_class [])),
     createFromWkb = (\<lambda>bs nSize v.
        if nSize \<noteq> - 1 \<and> nSize < 21 then (OGRERR_NOT_ENOUGH_DATA, None, 0)
        else (OGRERR_NONE, Some Point, 21)),
     VSI_CALLOC_ok = (\<lambda>n. True)
   \<rparr>"

text \<open>
  A sample text decoder: tokens are parentheses, commas and runs of other characters,
  spaces apart; the preamble reads the name, an optional \<open>Z\<close>, \<open>M\<close> or \<open>ZM\<close> and an
  optional \<open>EMPTY\<close>; the only leaf is \<open>POINT EMPTY\<close>.
\<close>

definition sample_token :: "string \<Rightarrow> string \<times> string" where
  "sample_token s =
     (let s1 = dropWhile (\<lambda>c. c = CHR '' '') s
      in case s1 of
           [] \<Rightarrow> ([], [])
         | c # cs \<Rightarrow>
             if c = CHR ''('' \<or> c = CHR '')'' \<or> c = CHR '','' then ([c], cs)
             else (takeWhile (\<lambda>c. c \<notin> set '' (),'') s1, dropWhile (\<lambda>c. c \<notin> set '' (),'') s1))"

definition sample_wkt_import_env :: "sample_leaf wkt_import_env" where
  "sample_wkt_import_env = \<lparr>
     importPreambleFromWkt = (\<lambda>this s.
        case sample_token s of
          (t1, s1) \<Rightarrow>
            if t1 \<noteq> ''GEOMETRYCOLLECTION''
              then (OGRERR_CORRUPT_DATA, this, [], s, False, False, False)
            else
              (case sample_token s1 of
                 (t2, s2) \<Rightarrow>
                   (let z = (t2 = ''Z'' \<or> t2 = ''ZM'');
                        m = (t2 = ''M'' \<or> t2 = ''ZM'');
                        s3 = (if z \<or> m then s2 else s1)
                    in if fst (sample_token s3) = ''EMPTY''
                         then (OGRERR_NONE, OGRGeometryCollection 0 (poSRS this) (cls this) [], [],
                               snd (sample_token s3), z, m, True)
                       else if fst (sample_token s3) = ''(''
                         then (OGRERR_NONE, OGRGeometryCollection 0 (poSRS this) (cls this) [], [],
                               s3, z, m, False)
                       else (OGRERR_CORRUPT_DATA, this, [], s, False, False, False)))),
     OGRWktReadToken = sample_token,
     is_GEOMETRYCOLLECTION = (\<lambda>tok. take 18 tok = ''GEOMETRYCOLLECTION''),
     createFromWkt = (\<lambda>s.
        case sample_token s of
          (t1, s1) \<Rightarrow>
            if t1 = ''POINT'' \<and> fst (sample_token s1) = ''EMPTY''
              then (OGRERR_NONE, Some (Leaf EmptyPoint), snd (sample_token s1))
            else (OGRERR_CORRUPT_DATA, None, s)),
     VSI_REALLOC_ok = (\<lambda>n. True)
   \<rparr>"

section \<open>Emptiness\<close>

lemma wf_slots_conv:
  "wf_slots xs = (\<forall>p \<in> set xs. \<exists>g. p = Some g \<and> wf_geometry g)"
proof (induction xs)
  case Nil
  show ?case by simp
next
  case (Cons p rest)
  then show ?case by (cases p) auto
qed

lemma wf_slots_nth:
  "wf_slots xs \<Longrightarrow> i < length xs \<Longrightarrow> \<exists>g. xs ! i = Some g \<and> wf_geometry g"
  unfolding wf_slots_conv by (metis nth_mem)

lemma wf_slots_map_Some: "wf_slots (map Some gs) = (\<forall>g \<in> set gs. wf_geometry g)"
  by (auto simp: wf_slots_conv)

lemma IsEmpty_loop_wf:
  "wf_slots xs \<Longrightarrow>
     IsEmpty_loop ops xs = (\<forall>p \<in> set xs. \<forall>g. p = Some g \<longrightarrow> OGRGeometry_IsEmpty ops g)"
proof (induction xs)
  case Nil
  show ?case by simp
next
  case (Cons p rest)
  then show ?case by (cases p) auto
qed

text \<open>
  C10. \<open>IsEmpty()\<close> of a well-formed container is true exactly when every element
  reports itself empty; so it is true of a container without elements, and of one
  with elements that are all empty.
\<close>

theorem C10_IsEmpty_iff_all_elements_empty:
  "wf_collection this \<Longrightarrow>
     IsEmpty ops this
       = (\<forall>i < length (papoGeoms this).
            \<exists>g. papoGeoms this ! i = Some g \<and> OGRGeometry_IsEmpty ops g)"
proof (cases this)
  case (OGRGeometryCollection f s k xs)
  assume "wf_collection this"
  with OGRGeometryCollection have wf: "wf_slots xs" by simp
  have "IsEmpty ops this
          = (\<forall>p \<in> set xs. \<forall>g. p = Some g \<longrightarrow> OGRGeometry_IsEmpty ops g)"
    using OGRGeometryCollection IsEmpty_loop_wf [OF wf] by simp
  also have "\<dots> = (\<forall>i < length xs. \<exists>g. xs ! i = Some g \<and> OGRGeometry_IsEmpty ops g)"
  proof
    assume a: "\<forall>p \<in> set xs. \<forall>g. p = Some g \<longrightarrow> OGRGeometry_IsEmpty ops g"
    show "\<forall>i < length xs. \<exists>g. xs ! i = Some g \<and> OGRGeometry_IsEmpty ops g"
    proof (intro allI impI)
      fix i assume i: "i < length xs"
      then obtain g where g: "xs ! i = Some g" using wf_slots_nth [OF wf] by blast
      with a i have "OGRGeometry_IsEmpty ops g" by (metis nth_mem)
      with g show "\<exists>g. xs ! i = Some g \<and> OGRGeometry_IsEmpty ops g" by simp
    qed
  next
    assume b: "\<forall>i < length xs. \<exists>g. xs ! i = Some g \<and> OGRGeometry_IsEmpty ops g"
    show "\<forall>p \<in> set xs. \<forall>g. p = Some g \<longrightarrow> OGRGeometry_IsEmpty ops g"
    proof (intro ballI allI impI)
      fix p g assume "p \<in> set xs" and pg: "p = Some g"
      then obtain i where "i < length xs" "xs ! i = p" by (auto simp: in_set_conv_nth)
      with b pg show "OGRGeometry_IsEmpty ops g" by fastforce
    qed
  qed
  finally show ?thesis using OGRGeometryCollection by simp
qed

theorem C10_witness:
  "wf_collection (mk_collection [Leaf EmptyPoint, Coll (mk_collection [])])
   \<and> IsEmpty sample_ops (mk_collection [Leaf EmptyPoint, Coll (mk_collection [])])
   \<and> IsEmpty sample_ops (mk_collection [])
   \<and> \<not> IsEmpty sample_ops (mk_collection [Leaf EmptyPoint, Leaf Point])"
proof -
  let ?c = "mk_collection [Leaf EmptyPoint, Coll (mk_collection [])] :: sample_leaf OGRGeometryCollection"
  have wf: "wf_collection ?c" by (simp add: mk_collection_def)
  have "IsEmpty sample_ops ?c"
    using C10_IsEmpty_iff_all_elements_empty [OF wf, of sample_ops]
    by (simp add: mk_collection_def sample_ops_def less_Suc_eq)
  moreover have "IsEmpty sample_ops (mk_collection [])"
    by (simp add: mk_collection_def)
  moreover have "\<not> IsEmpty sample_ops (mk_collection [Leaf EmptyPoint, Leaf Point])"
    by (simp add: mk_collection_def sample_ops_def)
  ultimately show ?thesis using wf by simp
qed

section \<open>Stealing an element\<close>

lemma stealGeometry_in_range:
  assumes "0 \<le> iGeom" and "iGeom < nGeomCount this"
  shows "stealGeometry this iGeom =
           (papoGeoms this ! nat iGeom,
            set_papoGeoms this
              (take (nat iGeom) (papoGeoms this) @ drop (Suc (nat iGeom)) (papoGeoms this)),
            [])"
proof -
  have len: "nat iGeom < length (papoGeoms this)"
    using assms by (simp add: nGeomCount_def)
  have "removeGeometry (set_papoGeoms this ((papoGeoms this)[nat iGeom := None])) iGeom True
          = (OGRERR_NONE,
             set_papoGeoms this
               (take (nat iGeom) (papoGeoms this) @ drop (Suc (nat iGeom)) (papoGeoms this)),
             [])"
    using assms len
    by (simp add: removeGeometry_def removeGeometry_at_def nGeomCount_def set_papoGeoms_def
        delete_ptr_def)
  then show ?thesis
    using assms by (simp add: stealGeometry_def)
qed

text \<open>
  C8. \<open>stealGeometry\<close> with an index outside \<open>[0, nGeomCount)\<close> returns \<open>nullptr\<close> and the
  container as it was. With an index inside, it returns the pointer stored at that
  index, destroys nothing, \<open>nGeomCount\<close> drops by one, the slots below the index keep
  their content, each slot from the index on holds what the next slot held, and the
  flags, the spatial reference and the class are unchanged.
\<close>

theorem C8_stealGeometry:
  "(iGeom < 0 \<or> nGeomCount this \<le> iGeom \<longrightarrow> stealGeometry this iGeom = (None, this, []))
   \<and> (0 \<le> iGeom \<and> iGeom < nGeomCount this \<longrightarrow>
        (case stealGeometry this iGeom of
           (poSubGeom, this', destroyed) \<Rightarrow>
             poSubGeom = papoGeoms this ! nat iGeom
             \<and> destroyed = []
             \<and> nGeomCount this' = nGeomCount this - 1
             \<and> flags this' = flags this \<and> poSRS this' = poSRS this \<and> cls this' = cls this
             \<and> (\<forall>j < nat iGeom. papoGeoms this' ! j = papoGeoms this ! j)
             \<and> (\<forall>j. nat iGeom \<le> j \<and> j < length (papoGeoms this') \<longrightarrow>
                    papoGeoms this' ! j = papoGeoms this ! Suc j)))"
proof (intro conjI impI)
  assume "iGeom < 0 \<or> nGeomCount this \<le> iGeom"
  then show "stealGeometry this iGeom = (None, this, [])"
    by (auto simp: stealGeometry_def)
next
  assume r: "0 \<le> iGeom \<and> iGeom < nGeomCount this"
  then have len: "nat iGeom < length (papoGeoms this)"
    by (simp add: nGeomCount_def nat_less_iff)
  have below: "\<forall>j < nat iGeom.
      (take (nat iGeom) (papoGeoms this) @ drop (Suc (nat iGeom)) (papoGeoms this)) ! j
        = papoGeoms this ! j"
    using len by (simp add: nth_append)
  have above: "\<forall>j. nat iGeom \<le> j \<and> j < length (papoGeoms this) - 1 \<longrightarrow>
      (take (nat iGeom) (papoGeoms this) @ drop (Suc (nat iGeom)) (papoGeoms this)) ! j
        = papoGeoms this ! Suc j"
    using len by (auto simp: nth_append min_def)
  have cnt: "length (take (nat iGeom) (papoGeoms this) @ drop (Suc (nat iGeom)) (papoGeoms this))
               = length (papoGeoms this) - 1"
    using len by simp
  show "case stealGeometry this iGeom of
           (poSubGeom, this', destroyed) \<Rightarrow>
             poSubGeom = papoGeoms this ! nat iGeom
             \<and> destroyed = []
             \<and> nGeomCount this' = nGeomCount this - 1
             \<and> flags this' = flags this \<and> poSRS this' = poSRS this \<and> cls this' = cls this
             \<and> (\<forall>j < nat iGeom. papoGeoms this' ! j = papoGeoms this ! j)
             \<and> (\<forall>j. nat iGeom \<le> j \<and> j < length (papoGeoms this') \<longrightarrow>
                    papoGeoms this' ! j = papoGeoms this ! Suc j)"
    using r len below above cnt
    by (simp add: stealGeometry_in_range set_papoGeoms_def nGeomCount_def of_nat_diff)
qed

theorem C8_witness:
  "stealGeometry (mk_collection [Leaf Point, Leaf EmptyPoint, Leaf Polygon]) 1
     = (Some (Leaf EmptyPoint), mk_collection [Leaf Point, Leaf Polygon], [])
   \<and> stealGeometry (mk_collection [Leaf Point, Leaf EmptyPoint, Leaf Polygon]) 3
     = (None, mk_collection [Leaf Point, Leaf EmptyPoint, Leaf Polygon], [])
   \<and> stealGeometry (mk_collection [Leaf Point, Leaf EmptyPoint, Leaf Polygon]) (- 1)
     = (None, mk_collection [Leaf Point, Leaf EmptyPoint, Leaf Polygon], [])"
proof -
  let ?c = "mk_collection [Leaf Point, Leaf EmptyPoint, Leaf Polygon]"
  have n: "nGeomCount ?c = 3" by (simp add: nGeomCount_def mk_collection_def)
  have a: "stealGeometry ?c 3 = (None, ?c, [])"
    using C8_stealGeometry [of 3 ?c] n by simp
  have b: "stealGeometry ?c (- 1) = (None, ?c, [])"
    using C8_stealGeometry [of "- 1" ?c] by simp
  have c: "stealGeometry ?c 1 = (Some (Leaf EmptyPoint), mk_collection [Leaf Point, Leaf Polygon], [])"
    by (simp add: stealGeometry_def removeGeometry_def removeGeometry_at_def nGeomCount_def
        set_papoGeoms_def mk_collection_def delete_ptr_def)
  have "case stealGeometry ?c 1 of
           (poSubGeom, this', destroyed) \<Rightarrow>
             poSubGeom = papoGeoms ?c ! nat 1 \<and> destroyed = []
             \<and> nGeomCount this' = nGeomCount ?c - 1"
    using C8_stealGeometry [of 1 ?c] n by (simp split: prod.splits)
  with a b c show ?thesis by simp
qed

section \<open>Rejected insertion\<close>

text \<open>
  C6. When the container's \<open>isCompatibleSubType\<close> rejects the type of the element,
  \<open>addGeometryDirectly\<close> returns \<open>OGRERR_UNSUPPORTED_GEOMETRY_TYPE\<close> and leaves the
  container (slots, count, flags, spatial reference) and the element as they were,
  the element staying with the caller. \<open>addGeometry\<close>, when the clone has the type of
  the element, returns the same code, leaves the container as it was and destroys
  the clone.
\<close>

theorem C6_rejected_insertion:
  assumes "\<not> isCompatibleSubType ops this (OGRGeometry_getGeometryType ops poNewGeom)"
  shows "addGeometryDirectly ops realloc_ok this poNewGeom
           = (OGRERR_UNSUPPORTED_GEOMETRY_TYPE, this, poNewGeom)
         \<and> (\<forall>poClone.
              clone ops poNewGeom = Some poClone
              \<and> OGRGeometry_getGeometryType ops poClone = OGRGeometry_getGeometryType ops poNewGeom
              \<longrightarrow> addGeometry ops realloc_ok this poNewGeom
                    = (OGRERR_UNSUPPORTED_GEOMETRY_TYPE, this, [poClone]))"
  using assms by (simp add: addGeometryDirectly_def addGeometry_def delete_ptr_def)

theorem C6_witness:
  "\<not> isCompatibleSubType sample_ops
        (OGRGeometryCollection 0 None (Derived_class 0) [Some (Leaf Point)])
        (OGRGeometry_getGeometryType sample_ops (Leaf Polygon))
   \<and> addGeometryDirectly sample_ops True
        (OGRGeometryCollection 0 None (Derived_class 0) [Some (Leaf Point)]) (Leaf Polygon)
       = (OGRERR_UNSUPPORTED_GEOMETRY_TYPE,
          OGRGeometryCollection 0 None (Derived_class 0) [Some (Leaf Point)], Leaf Polygon)
   \<and> addGeometry sample_ops True
        (OGRGeometryCollection 0 None (Derived_class 0) [Some (Leaf Point)]) (Leaf Polygon)
       = (OGRERR_UNSUPPORTED_GEOMETRY_TYPE,
          OGRGeometryCollection 0 None (Derived_class 0) [Some (Leaf Point)], [Leaf Polygon])
   \<and> addGeometryDirectly sample_ops True
        (OGRGeometryCollection 0 None (Derived_class 0) [Some (Leaf Point)]) (Leaf EmptyPoint)
       = (OGRERR_NONE,
          OGRGeometryCollection 0 None (Derived_class 0) [Some (Leaf Point), Some (Leaf EmptyPoint)],
          Leaf EmptyPoint)"
proof -
  let ?c = "OGRGeometryCollection 0 None (Derived_class 0) [Some (Leaf Point)]
              :: sample_leaf OGRGeometryCollection"
  have rej: "\<not> isCompatibleSubType sample_ops ?c (OGRGeometry_getGeometryType sample_ops (Leaf Polygon))"
    by (simp add: isCompatibleSubType_def OGRGeometry_getGeometryType_def sample_ops_def)
  have cl: "clone sample_ops (Leaf Polygon) = Some (Leaf Polygon)"
    by (simp add: sample_ops_def)
  have ok: "addGeometryDirectly sample_ops True ?c (Leaf EmptyPoint)
       = (OGRERR_NONE,
          OGRGeometryCollection 0 None (Derived_class 0) [Some (Leaf Point), Some (Leaf EmptyPoint)],
          Leaf EmptyPoint)"
    by (simp add: addGeometryDirectly_def isCompatibleSubType_def OGRGeometry_getGeometryType_def
        sample_ops_def nGeomCount_def set_papoGeoms_def)
  show ?thesis
    using C6_rejected_insertion [OF rej, of True] rej cl ok by simp
qed

section \<open>Rejected assignment\<close>

lemma assign_rejects_wf:
  "wf_slots xs \<Longrightarrow>
     assign_rejects ops this xs
       = (\<exists>p \<in> set xs. \<exists>g. p = Some g
            \<and> \<not> isCompatibleSubType ops this (OGRGeometry_getGeometryType ops g))"
proof (induction xs)
  case Nil
  show ?case by simp
next
  case (Cons p rest)
  then show ?case by (cases p) auto
qed

text \<open>
  C9, as the code has it. When some element of the source has a type the destination
  rejects, \<open>operator=\<close> returns the destination exactly as the base class's assignment,
  which has already run, left it, and destroys nothing more: the code of the
  container changes nothing after the base assignment. What is left of the
  destination's elements is what the base assignment left of them.
\<close>

theorem C9_rejected_assignment:
  assumes "OGRGeometry_assign ops this other = (this1, d)"
      and "wf_collection other"
      and "\<exists>i < length (papoGeoms other). \<exists>g. papoGeoms other ! i = Some g
             \<and> \<not> isCompatibleSubType ops this1 (OGRGeometry_getGeometryType ops g)"
  shows "operator_assign ops False calloc_ok this other = Some (this1, d)"
proof -
  have wf: "wf_slots (papoGeoms other)"
    using assms(2) by (cases other) simp
  have "assign_rejects ops this1 (papoGeoms other)"
    unfolding assign_rejects_wf [OF wf] using assms(3) by (metis nth_mem)
  then show ?thesis
    using assms(1) by (simp add: operator_assign_def)
qed

theorem C9_witness:
  "operator_assign sample_ops False True
     (OGRGeometryCollection 0 None (Derived_class 0) [Some (Leaf Point), Some (Leaf EmptyPoint)])
     (OGRGeometryCollection 2 (Some 4326) OGRGeometryCollection_class
        [Some (Leaf Point), Some (Leaf Polygon)])
   = Some (OGRGeometryCollection 2 (Some 4326) (Derived_class 0) [],
           [Leaf Point, Leaf EmptyPoint])"
proof -
  let ?this = "OGRGeometryCollection 0 None (Derived_class 0)
                 [Some (Leaf Point), Some (Leaf EmptyPoint)]
                 :: sample_leaf OGRGeometryCollection"
  let ?other = "OGRGeometryCollection 2 (Some 4326) OGRGeometryCollection_class
                  [Some (Leaf Point), Some (Leaf Polygon)]
                 :: sample_leaf OGRGeometryCollection"
  let ?this1 = "OGRGeometryCollection 2 (Some 4326) (Derived_class 0) []
                 :: sample_leaf OGRGeometryCollection"
  have h1: "OGRGeometry_assign sample_ops ?this ?other = (?this1, [Leaf Point, Leaf EmptyPoint])"
    by (simp add: sample_ops_def OGRGeometryCollection_empty_def set_papoGeoms_def delete_ptr_def)
  have h2: "wf_collection ?other" by simp
  have "papoGeoms ?other ! 1 = Some (Leaf Polygon)
          \<and> \<not> isCompatibleSubType sample_ops ?this1
                (OGRGeometry_getGeometryType sample_ops (Leaf Polygon))"
    by (simp add: isCompatibleSubType_def OGRGeometry_getGeometryType_def sample_ops_def)
  then have h3: "\<exists>i < length (papoGeoms ?other). \<exists>g. papoGeoms ?other ! i = Some g
             \<and> \<not> isCompatibleSubType sample_ops ?this1 (OGRGeometry_getGeometryType sample_ops g)"
    by (intro exI [of _ 1]) simp
  show ?thesis
    using C9_rejected_assignment [OF h1 h2 h3, of True] by simp
qed

text \<open>
  C9 as stated does not hold: with a base assignment that empties the destination
  before it takes the flags and the spatial reference of the source, a rejected
  assignment leaves the destination without its element, which is destroyed, and
  with a count of 0 instead of 1.
\<close>

theorem C9_counterexample:
  "operator_assign sample_ops False True
     (OGRGeometryCollection 0 None (Derived_class 0) [Some (Leaf Point)])
     (OGRGeometryCollection 2 (Some 4326) OGRGeometryCollection_class [Some (Leaf Polygon)])
   = Some (OGRGeometryCollection 2 (Some 4326) (Derived_class 0) [], [Leaf Point])
   \<and> papoGeoms (OGRGeometryCollection 2 (Some 4326) (Derived_class 0) []
                 :: sample_leaf OGRGeometryCollection)
       \<noteq> papoGeoms (OGRGeometryCollection 0 None (Derived_class 0) [Some (Leaf Point)])
   \<and> nGeomCount (OGRGeometryCollection 2 (Some 4326) (Derived_class 0) []
                  :: sample_leaf OGRGeometryCollection)
       \<noteq> nGeomCount (OGRGeometryCollection 0 None (Derived_class 0)
                       [Some (Leaf Point) :: sample_leaf OGRGeometry option])"
  by (simp add: operator_assign_def sample_ops_def OGRGeometryCollection_empty_def
      set_papoGeoms_def delete_ptr_def isCompatibleSubType_def OGRGeometry_getGeometryType_def
      nGeomCount_def)

section \<open>Equality of containers\<close>

lemma all_from_split:
  "(i::nat) < n \<Longrightarrow>
     (\<forall>j. i \<le> j \<and> j < n \<longrightarrow> P j) = (P i \<and> (\<forall>j. i + 1 \<le> j \<and> j < n \<longrightarrow> P j))"
proof (intro iffI conjI allI impI)
  fix j assume "i < n" and "P i \<and> (\<forall>j. i + 1 \<le> j \<and> j < n \<longrightarrow> P j)" and "i \<le> j \<and> j < n"
  then show "P j" by (cases "j = i") auto
qed auto

lemma Equals_loop_conv:
  assumes "wf_slots (papoGeoms this)"
      and "length (papoGeoms poOGC) = length (papoGeoms this)"
  shows "Equals_loop ops this poOGC i
           = (\<forall>j. i \<le> j \<and> j < length (papoGeoms this) \<longrightarrow>
                (\<exists>g. papoGeoms this ! j = Some g
                     \<and> OGRGeometry_Equals ops g (papoGeoms poOGC ! j)))"
proof (induction "length (papoGeoms this) - i" arbitrary: i)
  case 0
  then have "\<not> int i < nGeomCount this" by (simp add: nGeomCount_def)
  moreover from 0 have "\<not> (\<exists>j. i \<le> j \<and> j < length (papoGeoms this))" by auto
  ultimately show ?case by (subst Equals_loop.simps) auto
next
  case (Suc n)
  then have i: "i < length (papoGeoms this)" by simp
  then obtain g where g: "papoGeoms this ! i = Some g"
    using wf_slots_nth [OF assms(1)] by blast
  have ih: "Equals_loop ops this poOGC (i + 1)
           = (\<forall>j. i + 1 \<le> j \<and> j < length (papoGeoms this) \<longrightarrow>
                (\<exists>g. papoGeoms this ! j = Some g
                     \<and> OGRGeometry_Equals ops g (papoGeoms poOGC ! j)))"
    using Suc.hyps(1) [of "i + 1"] Suc.hyps(2) by simp
  have step: "Equals_loop ops this poOGC i
           = (OGRGeometry_Equals ops g (papoGeoms poOGC ! i) \<and> Equals_loop ops this poOGC (i + 1))"
    using i g assms(2)
    by (subst Equals_loop.simps) (auto simp: nGeomCount_def getGeometryRef_def)
  show ?case
    unfolding step ih by (subst all_from_split [OF i]) (simp add: g)
qed

text \<open>
  C4, as the code has it. For two well-formed containers that are not the same
  object, \<open>Equals\<close> is true exactly when their type tags are identical and either both
  containers are empty in the sense of \<open>IsEmpty()\<close>, or their counts are identical and
  the elements are pairwise equal at every index.
\<close>

theorem C4_Equals_characterised:
  assumes "wf_collection this"
  shows "Equals ops False this (Coll poOGC)
           = (getGeometryType ops poOGC = getGeometryType ops this
              \<and> ((IsEmpty ops this \<and> IsEmpty ops poOGC)
                 \<or> (getNumGeometries this = getNumGeometries poOGC
                    \<and> (\<forall>i < length (papoGeoms this).
                          \<exists>g. papoGeoms this ! i = Some g
                              \<and> OGRGeometry_Equals ops g (papoGeoms poOGC ! i)))))"
proof -
  have wf: "wf_slots (papoGeoms this)"
    using assms by (cases this) simp
  have loop: "length (papoGeoms poOGC) = length (papoGeoms this) \<Longrightarrow>
      Equals_loop ops this poOGC 0
        = (\<forall>i < length (papoGeoms this).
             \<exists>g. papoGeoms this ! i = Some g \<and> OGRGeometry_Equals ops g (papoGeoms poOGC ! i))"
    using Equals_loop_conv [OF wf, of poOGC ops 0] by simp
  show ?thesis
  proof (cases "getNumGeometries this = getNumGeometries poOGC")
    case True
    then have "length (papoGeoms poOGC) = length (papoGeoms this)"
      by (simp add: getNumGeometries_def nGeomCount_def)
    from loop [OF this] True show ?thesis
      by (auto simp: Equals.simps OGRGeometry_getGeometryType_def)
  next
    case False
    then show ?thesis
      by (auto simp: Equals.simps OGRGeometry_getGeometryType_def)
  qed
qed

theorem C4_witness:
  "wf_collection (mk_collection [Leaf Point, Leaf Polygon])
   \<and> Equals sample_ops False (mk_collection [Leaf Point, Leaf Polygon])
       (Coll (mk_collection [Leaf Point, Leaf Polygon]))
   \<and> \<not> Equals sample_ops False (mk_collection [Leaf Point, Leaf Polygon])
       (Coll (mk_collection [Leaf Polygon, Leaf Point]))"
proof -
  let ?a = "mk_collection [Leaf Point, Leaf Polygon] :: sample_leaf OGRGeometryCollection"
  let ?b = "mk_collection [Leaf Polygon, Leaf Point] :: sample_leaf OGRGeometryCollection"
  have wf: "wf_collection ?a" by (simp add: mk_collection_def)
  have "Equals sample_ops False ?a (Coll ?a)"
    unfolding C4_Equals_characterised [OF wf]
    by (simp add: mk_collection_def sample_ops_def getNumGeometries_def nGeomCount_def
        getGeometryType_def less_Suc_eq)
  moreover have "\<not> Equals sample_ops False ?a (Coll ?b)"
    unfolding C4_Equals_characterised [OF wf]
    by (auto simp: mk_collection_def sample_ops_def getNumGeometries_def nGeomCount_def
        getGeometryType_def)
  ultimately show ?thesis using wf by simp
qed

text \<open>
  C4 as stated does not hold: an empty container equals a container holding one
  empty container, though their counts differ; and a container holding an empty
  point and an empty container equals the one holding them in the other order,
  though the elements at index 0 are not equal.
\<close>

theorem C4_counterexample:
  "Equals sample_ops False (mk_collection []) (Coll (mk_collection [Coll (mk_collection [])]))
   \<and> getNumGeometries (mk_collection [] :: sample_leaf OGRGeometryCollection)
       \<noteq> getNumGeometries (mk_collection [Coll (mk_collection [])] :: sample_leaf OGRGeometryCollection)
   \<and> Equals sample_ops False (mk_collection [Leaf EmptyPoint, Coll (mk_collection [])])
       (Coll (mk_collection [Coll (mk_collection []), Leaf EmptyPoint]))
   \<and> \<not> OGRGeometry_Equals sample_ops (Leaf EmptyPoint) (Some (Coll (mk_collection [])))"
proof (intro conjI)
  show "Equals sample_ops False (mk_collection [])
          (Coll (mk_collection [Coll (mk_collection [])]))"
    by (simp add: Equals.simps mk_collection_def getGeometryType_def
        OGRGeometry_getGeometryType_def sample_ops_def)
  show "getNumGeometries (mk_collection [] :: sample_leaf OGRGeometryCollection)
       \<noteq> getNumGeometries (mk_collection [Coll (mk_collection [])] :: sample_leaf OGRGeometryCollection)"
    by (simp add: mk_collection_def getNumGeometries_def nGeomCount_def)
  show "Equals sample_ops False (mk_collection [Leaf EmptyPoint, Coll (mk_collection [])])
       (Coll (mk_collection [Coll (mk_collection []), Leaf EmptyPoint]))"
    by (simp add: Equals.simps mk_collection_def getGeometryType_def
        OGRGeometry_getGeometryType_def sample_ops_def)
  show "\<not> OGRGeometry_Equals sample_ops (Leaf EmptyPoint) (Some (Coll (mk_collection [])))"
    by (simp add: sample_ops_def)
qed

section \<open>Removing empty parts\<close>

lemma set_papoGeoms_twice [simp]:
  "set_papoGeoms (set_papoGeoms this xs) ys = set_papoGeoms this ys"
  by (simp add: set_papoGeoms_def)

lemma strip_then_drop_append:
  "strip_then_drop ops (xs @ ys) = strip_then_drop ops xs @ strip_then_drop ops ys"
  by (simp add: strip_then_drop_def)

lemma removeEmptyParts_loop_conv:
  "n \<le> length (papoGeoms this) \<Longrightarrow> wf_slots (take n (papoGeoms this)) \<Longrightarrow>
     fst (removeEmptyParts_loop ops this n)
       = set_papoGeoms this
           (strip_then_drop ops (take n (papoGeoms this)) @ drop n (papoGeoms this))"
proof (induction n arbitrary: this)
  case 0
  show ?case
    by (cases this) (simp add: removeEmptyParts_loop.simps strip_then_drop_def set_papoGeoms_def)
next
  case (Suc i)
  let ?xs = "papoGeoms this"
  from Suc.prems have i: "i < length ?xs" by simp
  have tk: "take (Suc i) ?xs = take i ?xs @ [?xs ! i]"
    using i by (simp add: take_Suc_conv_app_nth)
  have wfi: "wf_slots (take i ?xs)"
    using Suc.prems(2) unfolding tk wf_slots_conv by auto
  obtain g where g: "?xs ! i = Some g"
    using Suc.prems(2) unfolding tk wf_slots_conv by auto
  obtain g1 d1 where r: "OGRGeometry_removeEmptyParts ops g = (g1, d1)"
    by (cases "OGRGeometry_removeEmptyParts ops g")
  let ?this1 = "set_papoGeoms this (?xs[i := Some g1])"
  have len1: "i < length (papoGeoms ?this1)" using i by simp
  show ?case
  proof (cases "OGRGeometry_IsEmpty ops g1")
    case True
    let ?this2 = "set_papoGeoms this (take i ?xs @ drop (Suc i) ?xs)"
    have rm: "snd (removeGeometry ?this1 (int i) True) = (?this2, delete_ptr (Some g1))"
      using removeGeometry_in_range [OF len1, of True] i by simp
    have step: "fst (removeEmptyParts_loop ops this (Suc i))
                  = fst (removeEmptyParts_loop ops ?this2 i)"
      using i g r True rm
      by (subst removeEmptyParts_loop.simps) (simp split: prod.splits)
    have ih: "fst (removeEmptyParts_loop ops ?this2 i)
                = set_papoGeoms ?this2
                    (strip_then_drop ops (take i (papoGeoms ?this2)) @ drop i (papoGeoms ?this2))"
      using i wfi by (intro Suc.IH) simp_all
    have k: "strip_then_drop ops (take (Suc i) ?xs) = strip_then_drop ops (take i ?xs)"
      unfolding tk strip_then_drop_append using g r True by (simp add: strip_then_drop_def)
    show ?thesis
      unfolding step ih k using i by simp
  next
    case False
    have step: "fst (removeEmptyParts_loop ops this (Suc i))
                  = fst (removeEmptyParts_loop ops ?this1 i)"
      using i g r False
      by (subst removeEmptyParts_loop.simps) (simp split: prod.splits)
    have ih: "fst (removeEmptyParts_loop ops ?this1 i)
                = set_papoGeoms ?this1
                    (strip_then_drop ops (take i (papoGeoms ?this1)) @ drop i (papoGeoms ?this1))"
      using i wfi by (intro Suc.IH) simp_all
    have k: "strip_then_drop ops (take (Suc i) ?xs) = strip_then_drop ops (take i ?xs) @ [Some g1]"
      unfolding tk strip_then_drop_append using g r False by (simp add: strip_then_drop_def)
    have d: "drop i (?xs[i := Some g1]) = Some g1 # drop (Suc i) ?xs"
      using i by (simp add: drop_update_cancel Cons_nth_drop_Suc [symmetric] upd_conv_take_nth_drop)
    show ?thesis
      unfolding step ih k using i d by simp
  qed
qed

lemma removeEmptyParts_conv:
  "wf_collection this \<Longrightarrow>
     fst (removeEmptyParts ops this) = set_papoGeoms this (strip_then_drop ops (papoGeoms this))"
  using removeEmptyParts_loop_conv [of "length (papoGeoms this)" this ops]
  by (cases this) (simp add: removeEmptyParts.simps)

lemma hasEmptyParts_loop_map_Some:
  "hasEmptyParts_loop ops (map Some gs)
     = (\<exists>g \<in> set gs. OGRGeometry_IsEmpty ops g \<or> OGRGeometry_hasEmptyParts ops g)"
  by (induction gs) auto

lemma strip_then_drop_map_Some:
  "strip_then_drop ops (map Some gs)
     = map Some (filter (\<lambda>g. \<not> OGRGeometry_IsEmpty ops g)
                  (map (\<lambda>g. fst (OGRGeometry_removeEmptyParts ops g)) gs))"
  by (simp add: strip_then_drop_def comp_def)

lemma removeEmptyParts_properties:
  assumes c: "\<forall>l. leaf_removeEmptyParts_contract ops l"
  shows "wf_geometry g \<longrightarrow>
           wf_geometry (fst (OGRGeometry_removeEmptyParts ops g))
           \<and> fst (OGRGeometry_removeEmptyParts ops (fst (OGRGeometry_removeEmptyParts ops g)))
               = fst (OGRGeometry_removeEmptyParts ops g)
           \<and> (OGRGeometry_IsEmpty ops (fst (OGRGeometry_removeEmptyParts ops g))
              \<or> \<not> OGRGeometry_hasEmptyParts ops (fst (OGRGeometry_removeEmptyParts ops g)))"
    and "wf_collection this \<longrightarrow>
           wf_collection (fst (removeEmptyParts ops this))
           \<and> fst (removeEmptyParts ops (fst (removeEmptyParts ops this)))
               = fst (removeEmptyParts ops this)
           \<and> \<not> hasEmptyParts ops (fst (removeEmptyParts ops this))"
proof (induction g and this)
  case (Leaf l)
  from c have "leaf_removeEmptyParts_contract ops l" by simp
  then show ?case by (auto simp: leaf_removeEmptyParts_contract_def)
next
  case (Coll c1)
  then show ?case by (auto split: prod.splits)
next
  case (OGRGeometryCollection f s k xs)
  let ?c = "OGRGeometryCollection f s k xs"
  let ?r = "\<lambda>g. fst (OGRGeometry_removeEmptyParts ops g)"
  define kept where
    "kept = filter (\<lambda>g. \<not> OGRGeometry_IsEmpty ops g) (map (\<lambda>p. ?r (the p)) xs)"
  show ?case
  proof
    assume wf: "wf_collection ?c"
    then have wfx: "wf_slots xs" by simp
    have el: "wf_geometry g' \<and> ?r g' = g' \<and> \<not> OGRGeometry_IsEmpty ops g'
                \<and> \<not> OGRGeometry_hasEmptyParts ops g'" if "g' \<in> set kept" for g'
    proof -
      from that obtain p where p: "p \<in> set xs" and g': "g' = ?r (the p)"
        and ne: "\<not> OGRGeometry_IsEmpty ops g'" unfolding kept_def by auto
      from wfx p obtain g where g: "p = Some g" "wf_geometry g"
        unfolding wf_slots_conv by blast
      from OGRGeometryCollection [OF p, of g] g
      have "wf_geometry (?r g) \<and> ?r (?r g) = ?r g
            \<and> (OGRGeometry_IsEmpty ops (?r g) \<or> \<not> OGRGeometry_hasEmptyParts ops (?r g))"
        by simp
      with g' g ne show ?thesis by simp
    qed
    have first: "fst (removeEmptyParts ops ?c) = OGRGeometryCollection f s k (map Some kept)"
      using removeEmptyParts_conv [OF wf, of ops]
      by (simp add: strip_then_drop_def set_papoGeoms_def kept_def)
    have "\<forall>g \<in> set kept. wf_geometry g"
      using el by blast
    then have wf': "wf_collection (OGRGeometryCollection f s k (map Some kept))"
      by (simp only: wf_collection.simps wf_slots_map_Some)
    have "map ?r kept = kept"
      by (rule map_idI) (use el in blast)
    moreover have "filter (\<lambda>g. \<not> OGRGeometry_IsEmpty ops g) kept = kept"
      by (rule filter_True) (use el in blast)
    ultimately have again:
      "strip_then_drop ops (map Some kept) = map Some kept"
      by (simp only: strip_then_drop_map_Some)
    have second: "fst (removeEmptyParts ops (OGRGeometryCollection f s k (map Some kept)))
                    = OGRGeometryCollection f s k (map Some kept)"
      unfolding removeEmptyParts_conv [OF wf', of ops]
      by (simp add: again set_papoGeoms_def)
    have "\<not> (\<exists>g \<in> set kept. OGRGeometry_IsEmpty ops g \<or> OGRGeometry_hasEmptyParts ops g)"
      using el by blast
    then have third: "\<not> hasEmptyParts ops (OGRGeometryCollection f s k (map Some kept))"
      by (simp add: hasEmptyParts_loop_map_Some)
    show "wf_collection (fst (removeEmptyParts ops ?c))
           \<and> fst (removeEmptyParts ops (fst (removeEmptyParts ops ?c)))
               = fst (removeEmptyParts ops ?c)
           \<and> \<not> hasEmptyParts ops (fst (removeEmptyParts ops ?c))"
      unfolding first using wf' second third by (intro conjI)
  qed
qed

text \<open>
  C7. For a well-formed container whose leaves honour the contract above,
  \<open>removeEmptyParts\<close> applied to its own result returns that result, the result has no
  empty parts, and its slots are those of the container with every element first
  stripped of its own empty parts and then dropped if empty; flags, spatial reference
  and class are unchanged.
\<close>

theorem C7_removeEmptyParts_idempotent:
  assumes "wf_collection this" and "\<forall>l. leaf_removeEmptyParts_contract ops l"
  shows "fst (removeEmptyParts ops (fst (removeEmptyParts ops this)))
           = fst (removeEmptyParts ops this)
         \<and> \<not> hasEmptyParts ops (fst (removeEmptyParts ops this))
         \<and> fst (removeEmptyParts ops this)
             = OGRGeometryCollection (flags this) (poSRS this) (cls this)
                 (strip_then_drop ops (papoGeoms this))"
  using removeEmptyParts_properties(2) [OF assms(2), of this] assms(1)
    removeEmptyParts_conv [OF assms(1), of ops]
  by (simp add: set_papoGeoms_def)

theorem C7_witness:
  "removeEmptyParts sample_ops
     (mk_collection [Leaf EmptyPoint, Leaf PolygonEmptyRing,
                     Coll (mk_collection [Leaf EmptyPoint]),
                     Coll (mk_collection [Leaf Point, Leaf EmptyPoint])])
     = (mk_collection [Leaf Polygon, Coll (mk_collection [Leaf Point])],
        [Leaf EmptyPoint, Leaf EmptyPoint, Coll (mk_collection []), Leaf EmptyPoint])
   \<and> fst (removeEmptyParts sample_ops
            (mk_collection [Leaf Polygon, Coll (mk_collection [Leaf Point])]))
       = mk_collection [Leaf Polygon, Coll (mk_collection [Leaf Point])]
   \<and> \<not> hasEmptyParts sample_ops (mk_collection [Leaf Polygon, Coll (mk_collection [Leaf Point])])"
proof -
  let ?c = "mk_collection [Leaf EmptyPoint, Leaf PolygonEmptyRing,
                     Coll (mk_collection [Leaf EmptyPoint]),
                     Coll (mk_collection [Leaf Point, Leaf EmptyPoint])]
              :: sample_leaf OGRGeometryCollection"
  have wf: "wf_collection ?c" by (simp add: mk_collection_def)
  have contract: "\<forall>l. leaf_removeEmptyParts_contract sample_ops l"
    by (simp add: leaf_removeEmptyParts_contract_def sample_ops_def)
  have ev: "removeEmptyParts sample_ops ?c
      = (mk_collection [Leaf Polygon, Coll (mk_collection [Leaf Point])],
         [Leaf EmptyPoint, Leaf EmptyPoint, Coll (mk_collection []), Leaf EmptyPoint])"
    by (simp add: removeEmptyParts.simps removeEmptyParts_loop.simps mk_collection_def
        removeGeometry_def removeGeometry_at_def nGeomCount_def set_papoGeoms_def delete_ptr_def
        sample_ops_def)
  have "fst (removeEmptyParts sample_ops (fst (removeEmptyParts sample_ops ?c)))
           = fst (removeEmptyParts sample_ops ?c)
         \<and> \<not> hasEmptyParts sample_ops (fst (removeEmptyParts sample_ops ?c))"
    using C7_removeEmptyParts_idempotent [OF wf contract] by blast
  then show ?thesis
    by (simp add: ev)
qed

section \<open>Binary size and export\<close>

lemma WkbSize_loop_conv:
  "wf_slots xs \<Longrightarrow>
     WkbSize_loop ops nSize xs
       = nSize + sum_list (map (\<lambda>p. OGRGeometry_WkbSize ops (the p)) xs)"
proof (induction xs arbitrary: nSize)
  case Nil
  show ?case by simp
next
  case (Cons p rest)
  then show ?case by (cases p) (simp_all add: add.assoc)
qed

lemma exportToWkb_loop_offset:
  "wf_slots xs \<Longrightarrow>
     fst (snd (exportToWkb_loop env ops dim sOptions xs buf pabyData nOffset iGeom))
       = nOffset + sum_list (map (\<lambda>p. OGRGeometry_WkbSize ops (the p)) xs)"
proof (induction xs arbitrary: buf nOffset iGeom)
  case Nil
  show ?case by simp
next
  case (Cons p rest)
  then obtain g where p: "p = Some g" and wf: "wf_slots rest"
    by (cases p) auto
  let ?buf1 = "OGRGeometry_exportToWkb env ops g buf (pabyData + nOffset) sOptions"
  obtain buf2 nOffset2 ws where
    r: "exportToWkb_loop env ops dim sOptions rest ?buf1 pabyData
          (nOffset + OGRGeometry_WkbSize ops g) (iGeom + 1) = (buf2, nOffset2, ws)"
    by (metis prod_cases3)
  have "nOffset2 = nOffset + OGRGeometry_WkbSize ops g
                     + sum_list (map (\<lambda>p. OGRGeometry_WkbSize ops (the p)) rest)"
    using Cons.IH [OF wf, of ?buf1 "nOffset + OGRGeometry_WkbSize ops g" "iGeom + 1"] r
    by simp
  then show ?case
    using p r by (simp add: add.assoc)
qed

lemma write_bytes_append:
  "write_bytes buf a (xs @ ys)
     = write_bytes (write_bytes buf a xs) (a + word_of_nat (length xs)) ys"
  by (induction xs arbitrary: buf a) (simp_all add: add.assoc)

lemma four_bytes:
  assumes "length (t :: 8 word list) = 4"
  obtains t0 t1 t2 t3 where "t = [t0, t1, t2, t3]"
proof -
  from assms obtain t0 r0 where a: "t = t0 # r0" "length r0 = 3"
    by (cases t) auto
  then obtain t1 r1 where b: "r0 = t1 # r1" "length r1 = 2"
    by (cases r0) auto
  then obtain t2 r2 where c: "r1 = t2 # r2" "length r2 = 1"
    by (cases r1) auto
  then obtain t3 where d: "r2 = [t3]"
    by (cases r2) auto
  from a b c d that show thesis by simp
qed

lemma preamble_writes:
  assumes "length (t :: 8 word list) = 4" and "length (c :: 8 word list) = 4"
  shows "write_bytes (write_bytes (buf(a := b)) (a + 1) t) (a + 5) c
           = write_bytes buf (a :: size_t)
               (map (write_bytes (write_bytes ((\<lambda>a. 0)(0 := b)) (0 + 1) t) (0 + 5) c)
                  [0, 1, 2, 3, 4, 5, 6, 7, 8])"
proof -
  from assms(1) obtain t0 t1 t2 t3 where t: "t = [t0, t1, t2, t3]" by (rule four_bytes)
  from assms(2) obtain c0 c1 c2 c3 where c: "c = [c0, c1, c2, c3]" by (rule four_bytes)
  show ?thesis unfolding t c by (simp add: add.assoc)
qed

lemma preamble_writes':
  assumes "length (t :: 8 word list) = 4" and "length (c :: 8 word list) = 4"
  shows "write_bytes (write_bytes (buf(a := b)) (a + 1) t) (a + 5) c
           = write_bytes buf (a :: size_t)
               (map (write_bytes (write_bytes ((\<lambda>a. 0)(0 := b)) 1 t) 5 c)
                  [0, 1, 2, 3, 4, 5, 6, 7, 8])"
  using preamble_writes [OF assms, of buf a b] by simp

lemma exportToWkb_header_options:
  "fst (exportToWkb_header env ops this buf a psOptions)
     = fst (exportToWkb_header env ops this (\<lambda>a. 0) 0 psOptions)"
  by (simp add: exportToWkb_header_def Let_def)

lemma exportToWkb_header_writes:
  assumes "\<forall>x. length (bytes_in_memory env x) = 4"
  shows "snd (exportToWkb_header env ops this buf a psOptions)
           = write_bytes buf a (wkb_preamble env ops this psOptions)"
proof -
  have len: "\<And>x. length (bytes_in_memory env x) = 4" using assms by simp
  show ?thesis
    unfolding exportToWkb_header_def wkb_preamble_def Let_def snd_conv
    by (simp add: preamble_writes' [OF len len])
qed

lemma length_wkb_preamble [simp]: "length (wkb_preamble env ops this psOptions) = 9"
  by (simp add: wkb_preamble_def)

lemma exportToWkb_loop_writes:
  assumes "wf_slots xs"
      and "\<forall>p \<in> set xs. \<forall>g. p = Some g \<longrightarrow>
             (\<forall>buf a. OGRGeometry_exportToWkb env ops g buf a sOptions
                        = write_bytes buf a (OGRGeometry_wkb_encoding env ops leaf_bytes g sOptions))
             \<and> word_of_nat (length (OGRGeometry_wkb_encoding env ops leaf_bytes g sOptions))
                 = OGRGeometry_WkbSize ops g"
  shows "fst (exportToWkb_loop env ops dim sOptions xs buf pabyData nOffset iGeom)
           = write_bytes buf (pabyData + nOffset)
               (wkb_encoding_elements env ops leaf_bytes sOptions xs)
         \<and> word_of_nat (length (wkb_encoding_elements env ops leaf_bytes sOptions xs))
             = sum_list (map (\<lambda>p. OGRGeometry_WkbSize ops (the p)) xs)"
  using assms
proof (induction xs arbitrary: buf nOffset iGeom)
  case Nil
  show ?case by simp
next
  case (Cons p rest)
  then obtain g where p: "p = Some g" and wf: "wf_slots rest"
    by (cases p) auto
  let ?e = "OGRGeometry_wkb_encoding env ops leaf_bytes g sOptions"
  have g1: "\<And>buf a. OGRGeometry_exportToWkb env ops g buf a sOptions = write_bytes buf a ?e"
    and g2: "word_of_nat (length ?e) = OGRGeometry_WkbSize ops g"
    using Cons.prems(2) p by auto
  have rest: "\<forall>p \<in> set rest. \<forall>g. p = Some g \<longrightarrow>
             (\<forall>buf a. OGRGeometry_exportToWkb env ops g buf a sOptions
                        = write_bytes buf a (OGRGeometry_wkb_encoding env ops leaf_bytes g sOptions))
             \<and> word_of_nat (length (OGRGeometry_wkb_encoding env ops leaf_bytes g sOptions))
                 = OGRGeometry_WkbSize ops g"
    using Cons.prems(2) by simp
  let ?buf1 = "write_bytes buf (pabyData + nOffset) ?e"
  note ih = Cons.IH [OF wf rest, of ?buf1 "nOffset + OGRGeometry_WkbSize ops g" "iGeom + 1"]
  obtain buf2 nOffset2 ws where
    r: "exportToWkb_loop env ops dim sOptions rest ?buf1 pabyData
          (nOffset + OGRGeometry_WkbSize ops g) (iGeom + 1) = (buf2, nOffset2, ws)"
    by (metis prod_cases3)
  have b: "buf2 = write_bytes ?buf1 (pabyData + (nOffset + OGRGeometry_WkbSize ops g))
                    (wkb_encoding_elements env ops leaf_bytes sOptions rest)"
    using ih r by simp
  have "fst (exportToWkb_loop env ops dim sOptions (p # rest) buf pabyData nOffset iGeom) = buf2"
    using p r g1 by simp
  also have "\<dots> = write_bytes buf (pabyData + nOffset)
                     (?e @ wkb_encoding_elements env ops leaf_bytes sOptions rest)"
    unfolding b write_bytes_append g2 by (simp add: add.assoc)
  finally have first: "fst (exportToWkb_loop env ops dim sOptions (p # rest) buf pabyData nOffset iGeom)
      = write_bytes buf (pabyData + nOffset)
          (wkb_encoding_elements env ops leaf_bytes sOptions (p # rest))"
    using p by simp
  have second: "word_of_nat (length (wkb_encoding_elements env ops leaf_bytes sOptions (p # rest)))
             = sum_list (map (\<lambda>p. OGRGeometry_WkbSize ops (the p)) (p # rest))"
    using p g2 ih by simp
  from first second show ?case by simp
qed

lemma exportToWkb_writes_encoding:
  assumes lw: "\<forall>l buf a sOptions.
                 leaf_exportToWkb env l buf a sOptions = write_bytes buf a (leaf_bytes l sOptions)"
      and ll: "\<forall>l sOptions. length (leaf_bytes l sOptions) = unat (leaf_WkbSize ops l)"
      and l4: "\<forall>x. length (bytes_in_memory env x) = 4"
  shows "wf_geometry g \<longrightarrow>
           (\<forall>sOptions.
              (\<forall>buf a. OGRGeometry_exportToWkb env ops g buf a sOptions
                 = write_bytes buf a (OGRGeometry_wkb_encoding env ops leaf_bytes g sOptions))
              \<and> word_of_nat (length (OGRGeometry_wkb_encoding env ops leaf_bytes g sOptions))
                  = OGRGeometry_WkbSize ops g)"
    and "wf_collection this \<longrightarrow>
           (\<forall>psOptions.
              (\<forall>buf a. fst (snd (exportToWkb env ops this buf a psOptions))
                 = write_bytes buf a (wkb_encoding env ops leaf_bytes this psOptions))
              \<and> word_of_nat (length (wkb_encoding env ops leaf_bytes this psOptions))
                  = WkbSize ops this)"
proof (induction g and this)
  case (Leaf l)
  show ?case using lw ll by simp
next
  case (Coll c)
  then show ?case by simp
next
  case (OGRGeometryCollection f s k xs)
  let ?c = "OGRGeometryCollection f s k xs"
  show ?case
  proof (intro impI allI)
    fix psOptions
    assume "wf_collection ?c"
    then have wf: "wf_slots xs" by simp
    define sOptions where
      "sOptions = fst (exportToWkb_header env ops ?c (\<lambda>a. 0) 0 psOptions)"
    have el: "\<forall>p \<in> set xs. \<forall>g. p = Some g \<longrightarrow>
             (\<forall>buf a. OGRGeometry_exportToWkb env ops g buf a sOptions
                        = write_bytes buf a (OGRGeometry_wkb_encoding env ops leaf_bytes g sOptions))
             \<and> word_of_nat (length (OGRGeometry_wkb_encoding env ops leaf_bytes g sOptions))
                 = OGRGeometry_WkbSize ops g"
    proof (intro ballI allI impI)
      fix p g assume p: "p \<in> set xs" and pg: "p = Some g"
      with wf have "wf_geometry g" unfolding wf_slots_conv by auto
      with OGRGeometryCollection [OF p, of g] pg
      show "(\<forall>buf a. OGRGeometry_exportToWkb env ops g buf a sOptions
                        = write_bytes buf a (OGRGeometry_wkb_encoding env ops leaf_bytes g sOptions))
             \<and> word_of_nat (length (OGRGeometry_wkb_encoding env ops leaf_bytes g sOptions))
                 = OGRGeometry_WkbSize ops g"
        by simp
    qed
    have hdr: "\<And>buf a. exportToWkb_header env ops ?c buf a psOptions
                 = (sOptions, write_bytes buf a (wkb_preamble env ops ?c psOptions))"
      using exportToWkb_header_options [of env ops ?c _ _ psOptions]
        exportToWkb_header_writes [OF l4, of ops ?c _ _ psOptions]
      unfolding sOptions_def by (metis prod.collapse)
    have sz: "word_of_nat (length (wkb_encoding env ops leaf_bytes ?c psOptions)) = WkbSize ops ?c"
      using exportToWkb_loop_writes [OF wf el] WkbSize_loop_conv [OF wf, of ops 9]
      by (simp add: sOptions_def)
    have wr: "fst (snd (exportToWkb env ops ?c buf a psOptions))
                 = write_bytes buf a (wkb_encoding env ops leaf_bytes ?c psOptions)" for buf a
    proof -
      let ?buf3 = "write_bytes buf a (wkb_preamble env ops ?c psOptions)"
      have "fst (snd (exportToWkb env ops ?c buf a psOptions))
              = fst (exportToWkb_loop env ops (getCoordinateDimension env ?c) sOptions xs
                       ?buf3 a 9 0)"
        by (simp add: hdr split: prod.splits)
      also have "\<dots> = write_bytes ?buf3 (a + 9)
                         (wkb_encoding_elements env ops leaf_bytes sOptions xs)"
        using exportToWkb_loop_writes [OF wf el] by simp
      also have "\<dots> = write_bytes buf a (wkb_encoding env ops leaf_bytes ?c psOptions)"
        by (simp add: write_bytes_append sOptions_def)
      finally show ?thesis .
    qed
    from wr sz show "(\<forall>buf a. fst (snd (exportToWkb env ops ?c buf a psOptions))
                 = write_bytes buf a (wkb_encoding env ops leaf_bytes ?c psOptions))
              \<and> word_of_nat (length (wkb_encoding env ops leaf_bytes ?c psOptions))
                  = WkbSize ops ?c"
      by simp
  qed
qed

lemma write_bytes_outside:
  "(\<forall>i < length bs. x \<noteq> a + word_of_nat i) \<Longrightarrow> write_bytes buf a bs x = buf x"
proof (induction bs arbitrary: buf a)
  case Nil
  show ?case by simp
next
  case (Cons b bs)
  have "\<forall>i < length bs. x \<noteq> (a + 1) + word_of_nat i"
  proof (intro allI impI)
    fix i assume "i < length bs"
    then have "x \<noteq> a + word_of_nat (Suc i)" using Cons.prems by auto
    then show "x \<noteq> (a + 1) + word_of_nat i" by (simp add: add.assoc)
  qed
  then have "write_bytes (buf(a := b)) (a + 1) bs x = (buf(a := b)) x"
    by (rule Cons.IH)
  moreover have "x \<noteq> a" using Cons.prems [rule_format, of 0] by simp
  ultimately show ?case by simp
qed

text \<open>
  C3. For a well-formed container, \<open>WkbSize()\<close> is 9 plus the sum of the elements'
  \<open>WkbSize()\<close> (in \<open>size_t\<close> arithmetic), and \<open>exportToWkb\<close>, for any options (byte order
  and variant, or none), any buffer and any address, returns \<open>OGRERR_NONE\<close> with a
  final offset \<open>nOffset\<close> equal to \<open>WkbSize()\<close>. When every leaf class writes, at the
  address it is given, an encoding of as many bytes as its \<open>WkbSize()\<close>, and a 32-bit
  value takes four bytes in memory, the buffer afterwards is the buffer before with
  the encoding of the container written from \<open>pabyData\<close> on: the nine bytes of the
  preamble, then the encodings of the elements in order, each at the running
  offset. That encoding has \<open>WkbSize()\<close> bytes (exactly so when its length fits a
  \<open>size_t\<close>), and no other address of the buffer is written.
\<close>

theorem C3_WkbSize_matches_export:
  assumes "wf_collection this"
  shows "WkbSize ops this
           = 9 + sum_list (map (\<lambda>p. OGRGeometry_WkbSize ops (the p)) (papoGeoms this))
         \<and> fst (exportToWkb env ops this buf pabyData psOptions) = OGRERR_NONE
         \<and> fst (snd (snd (exportToWkb env ops this buf pabyData psOptions))) = WkbSize ops this
         \<and> ((\<forall>l buf a sOptions.
                leaf_exportToWkb env l buf a sOptions = write_bytes buf a (leaf_bytes l sOptions))
             \<and> (\<forall>l sOptions. length (leaf_bytes l sOptions) = unat (leaf_WkbSize ops l))
             \<and> (\<forall>x. length (bytes_in_memory env x) = 4)
             \<longrightarrow>
               fst (snd (exportToWkb env ops this buf pabyData psOptions))
                 = write_bytes buf pabyData (wkb_encoding env ops leaf_bytes this psOptions)
               \<and> word_of_nat (length (wkb_encoding env ops leaf_bytes this psOptions))
                   = WkbSize ops this
               \<and> (length (wkb_encoding env ops leaf_bytes this psOptions) < 2 ^ 64 \<longrightarrow>
                    length (wkb_encoding env ops leaf_bytes this psOptions)
                      = unat (WkbSize ops this))
               \<and> (\<forall>x. (\<forall>i < length (wkb_encoding env ops leaf_bytes this psOptions).
                          x \<noteq> pabyData + word_of_nat i) \<longrightarrow>
                        fst (snd (exportToWkb env ops this buf pabyData psOptions)) x = buf x))"
proof -
  obtain f s k xs where c: "this = OGRGeometryCollection f s k xs"
    by (cases this)
  with assms have wf: "wf_slots xs" by simp
  obtain sOptions buf3 where h: "exportToWkb_header env ops this buf pabyData psOptions = (sOptions, buf3)"
    by (cases "exportToWkb_header env ops this buf pabyData psOptions")
  have off: "fst (snd (exportToWkb_loop env ops (getCoordinateDimension env this) sOptions xs buf3 pabyData 9 0))
          = 9 + sum_list (map (\<lambda>p. OGRGeometry_WkbSize ops (the p)) xs)"
    by (rule exportToWkb_loop_offset [OF wf])
  have p1: "WkbSize ops this
           = 9 + sum_list (map (\<lambda>p. OGRGeometry_WkbSize ops (the p)) (papoGeoms this))"
    using c WkbSize_loop_conv [OF wf, of ops 9] by simp
  have p2: "fst (exportToWkb env ops this buf pabyData psOptions) = OGRERR_NONE"
    using c h by (simp split: prod.splits)
  have p3: "fst (snd (snd (exportToWkb env ops this buf pabyData psOptions))) = WkbSize ops this"
    using c h off p1 by (simp split: prod.splits)
  have p4: "fst (snd (exportToWkb env ops this buf pabyData psOptions))
                 = write_bytes buf pabyData (wkb_encoding env ops leaf_bytes this psOptions)
               \<and> word_of_nat (length (wkb_encoding env ops leaf_bytes this psOptions))
                   = WkbSize ops this
               \<and> (length (wkb_encoding env ops leaf_bytes this psOptions) < 2 ^ 64 \<longrightarrow>
                    length (wkb_encoding env ops leaf_bytes this psOptions)
                      = unat (WkbSize ops this))
               \<and> (\<forall>x. (\<forall>i < length (wkb_encoding env ops leaf_bytes this psOptions).
                          x \<noteq> pabyData + word_of_nat i) \<longrightarrow>
                        fst (snd (exportToWkb env ops this buf pabyData psOptions)) x = buf x)"
    if lw: "\<forall>l buf a sOptions.
                leaf_exportToWkb env l buf a sOptions = write_bytes buf a (leaf_bytes l sOptions)"
      and ll: "\<forall>l sOptions. length (leaf_bytes l sOptions) = unat (leaf_WkbSize ops l)"
      and l4: "\<forall>x. length (bytes_in_memory env x) = 4"
  proof -
    let ?e = "wkb_encoding env ops leaf_bytes this psOptions"
    from exportToWkb_writes_encoding(2) [OF lw ll l4, of this] assms
    have a: "fst (snd (exportToWkb env ops this buf pabyData psOptions))
               = write_bytes buf pabyData ?e"
      and b: "(word_of_nat (length ?e) :: size_t) = WkbSize ops this"
      by simp_all
    have d: "length ?e = unat (WkbSize ops this)" if "length ?e < 2 ^ 64"
    proof -
      have "unat (word_of_nat (length ?e) :: size_t) = length ?e"
        using that by (simp add: unat_of_nat)
      then show ?thesis using b by simp
    qed
    have e: "\<forall>x. (\<forall>i < length ?e. x \<noteq> pabyData + word_of_nat i) \<longrightarrow>
               fst (snd (exportToWkb env ops this buf pabyData psOptions)) x = buf x"
      unfolding a by (auto intro: write_bytes_outside)
    from a b d e show ?thesis by blast
  qed
  from p1 p2 p3 p4 show ?thesis by blast
qed

theorem C3_witness:
  "WkbSize sample_ops (mk_collection [Leaf Point, Coll (mk_collection [])]) = 39
   \<and> exportToWkb sample_wkb_export_env sample_ops
        (mk_collection [Leaf Point, Coll (mk_collection [])]) (\<lambda>a. 255) 0
        (Some \<lparr>eByteOrder = wkbNDR, eWkbVariant = wkbVariantOldOgc\<rparr>)
     = (OGRERR_NONE,
        write_bytes (\<lambda>a. 255) 0
          ([1, 7, 0, 0, 0, 2, 0, 0, 0] @ (1 # replicate 20 0) @ [1, 7, 0, 0, 0, 0, 0, 0, 0]),
        39, [])"
proof -
  let ?c = "mk_collection [Leaf Point, Coll (mk_collection [])]
              :: sample_leaf OGRGeometryCollection"
  let ?o = "Some \<lparr>eByteOrder = wkbNDR, eWkbVariant = wkbVariantOldOgc\<rparr>"
  have wf: "wf_collection ?c" by (simp add: mk_collection_def)
  have sz: "WkbSize sample_ops ?c = 39"
    by (simp add: mk_collection_def sample_ops_def)
  have lw: "\<forall>l buf a sOptions. leaf_exportToWkb sample_wkb_export_env l buf a sOptions
              = write_bytes buf a (sample_leaf_bytes l sOptions)"
    by (simp add: sample_wkb_export_env_def)
  have ll: "\<forall>l sOptions. length (sample_leaf_bytes l sOptions) = unat (leaf_WkbSize sample_ops l)"
    by (simp add: sample_leaf_bytes_def sample_ops_def)
  have l4: "\<forall>x. length (bytes_in_memory sample_wkb_export_env x) = 4"
    by (simp add: sample_wkb_export_env_def)
  have enc: "wkb_encoding sample_wkb_export_env sample_ops sample_leaf_bytes ?c ?o
               = [1, 7, 0, 0, 0, 2, 0, 0, 0] @ (1 # replicate 20 0) @ [1, 7, 0, 0, 0, 0, 0, 0, 0]"
    by (simp add: mk_collection_def wkb_preamble_def exportToWkb_header_def Let_def
        getGeometryType_def nGeomCount_def sample_wkb_export_env_def sample_ops_def
        sample_leaf_bytes_def)
  have ws: "snd (snd (snd (exportToWkb sample_wkb_export_env sample_ops ?c (\<lambda>a. 255) 0 ?o))) = []"
    by (simp add: mk_collection_def sample_wkb_export_env_def split: prod.splits)
  note t = C3_WkbSize_matches_export [OF wf, of sample_ops sample_wkb_export_env "\<lambda>a. 255" 0 ?o
      sample_leaf_bytes]
  have "fst (exportToWkb sample_wkb_export_env sample_ops ?c (\<lambda>a. 255) 0 ?o) = OGRERR_NONE"
    using t by blast
  moreover have "fst (snd (snd (exportToWkb sample_wkb_export_env sample_ops ?c (\<lambda>a. 255) 0 ?o))) = 39"
    using t sz by simp
  moreover have "fst (snd (exportToWkb sample_wkb_export_env sample_ops ?c (\<lambda>a. 255) 0 ?o))
      = write_bytes (\<lambda>a. 255) 0
          (wkb_encoding sample_wkb_export_env sample_ops sample_leaf_bytes ?c ?o)"
    using t lw ll l4 by blast
  ultimately have "exportToWkb sample_wkb_export_env sample_ops ?c (\<lambda>a. 255) 0 ?o
     = (OGRERR_NONE,
        write_bytes (\<lambda>a. 255) 0
          (wkb_encoding sample_wkb_export_env sample_ops sample_leaf_bytes ?c ?o),
        39, [])"
    using ws by (metis prod.collapse)
  with sz enc show ?thesis by simp
qed

section \<open>The recursion guard of the decoders\<close>

text \<open>
  C2. A call of \<open>importFromWkbInternal\<close> or \<open>importFromWktInternal\<close> at recursion level
  32 returns \<open>OGRERR_CORRUPT_DATA\<close> with the container untouched, nothing destroyed,
  zero bytes consumed and the text input where it was, whatever the input and the
  variant. At a level from 0 to 31 the guard does not reject: the call runs the
  preamble, returns its error if it fails, and succeeds on an input whose preamble
  announces no element (binary) or \<open>EMPTY\<close> (text).
\<close>

theorem C2_recursion_guard:
  "importFromWkbInternal env ops this pabyData nSize 32 eVariant
     = (OGRERR_CORRUPT_DATA, this, 0, [])
   \<and> importFromWktInternal wenv ops this ppszInput 32
     = Some (OGRERR_CORRUPT_DATA, this, ppszInput, [])
   \<and> (unat nRecLevel < 32 \<longrightarrow>
        (\<forall>eErr this1 d0 nSize1 nDataOffset eOrder nGeomCountNew.
           importPreambleOfCollectionFromWkb env this pabyData nSize eVariant
             = (eErr, this1, d0, nSize1, nDataOffset, eOrder, nGeomCountNew) \<longrightarrow>
           (eErr \<noteq> OGRERR_NONE \<longrightarrow>
              importFromWkbInternal env ops this pabyData nSize nRecLevel eVariant
                = (eErr, this1, 0, d0))
           \<and> (eErr = OGRERR_NONE \<and> nGeomCountNew = 0 \<longrightarrow>
              importFromWkbInternal env ops this pabyData nSize nRecLevel eVariant
                = (OGRERR_NONE, set_papoGeoms this1 [], nDataOffset, d0)))
        \<and> (\<forall>eErr this1 d0 ppszInput1 bHasZ bHasM.
           importPreambleFromWkt wenv this ppszInput
             = (eErr, this1, d0, ppszInput1, bHasZ, bHasM, True) \<longrightarrow>
           (eErr \<noteq> OGRERR_NONE \<longrightarrow>
              importFromWktInternal wenv ops this ppszInput nRecLevel
                = Some (eErr, this1, ppszInput1, d0))
           \<and> (eErr = OGRERR_NONE \<longrightarrow>
              (\<exists>this3. importFromWktInternal wenv ops this ppszInput nRecLevel
                = Some (OGRERR_NONE, this3, ppszInput1, d0)
                \<and> papoGeoms this3 = papoGeoms this1))))"
proof (intro conjI impI allI)
  show "importFromWkbInternal env ops this pabyData nSize 32 eVariant
          = (OGRERR_CORRUPT_DATA, this, 0, [])"
    by (simp add: importFromWkbInternal.simps)
  show "importFromWktInternal wenv ops this ppszInput 32
          = Some (OGRERR_CORRUPT_DATA, this, ppszInput, [])"
    by (simp add: importFromWktInternal.simps)
next
  fix eErr this1 d0 nSize1 nDataOffset eOrder nGeomCountNew
  assume l: "unat nRecLevel < 32"
    and p: "importPreambleOfCollectionFromWkb env this pabyData nSize eVariant
             = (eErr, this1, d0, nSize1, nDataOffset, eOrder, nGeomCountNew)"
  from l have n: "nRecLevel \<noteq> 32" by auto
  { assume "eErr \<noteq> OGRERR_NONE"
    then show "importFromWkbInternal env ops this pabyData nSize nRecLevel eVariant
                = (eErr, this1, 0, d0)"
      using n p by (simp add: importFromWkbInternal.simps) }
  { assume "eErr = OGRERR_NONE \<and> nGeomCountNew = 0"
    then show "importFromWkbInternal env ops this pabyData nSize nRecLevel eVariant
                = (OGRERR_NONE, set_papoGeoms this1 [], nDataOffset, d0)"
      using n p
      by (simp add: importFromWkbInternal.simps importFromWkb_loop.simps nGeomCount_def) }
next
  fix eErr this1 d0 ppszInput1 bHasZ bHasM
  assume l: "unat nRecLevel < 32"
    and p: "importPreambleFromWkt wenv this ppszInput
             = (eErr, this1, d0, ppszInput1, bHasZ, bHasM, True)"
  from l have n: "nRecLevel \<noteq> 32" by auto
  { assume "eErr \<noteq> OGRERR_NONE"
    then show "importFromWktInternal wenv ops this ppszInput nRecLevel
                = Some (eErr, this1, ppszInput1, d0)"
      using n p by (simp add: importFromWktInternal.simps) }
  { assume "eErr = OGRERR_NONE"
    then show "\<exists>this3. importFromWktInternal wenv ops this ppszInput nRecLevel
                = Some (OGRERR_NONE, this3, ppszInput1, d0)
                \<and> papoGeoms this3 = papoGeoms this1"
      using n p by (simp add: importFromWktInternal.simps set_flags_def) }
qed

theorem C2_witness:
  "importFromWkbInternal sample_wkb_import_env sample_ops (mk_collection [])
      [1, 7,0,0,0, 0,0,0,0] 9 31 wkbVariantOldOgc
     = (OGRERR_NONE, mk_collection [], 9, [])
   \<and> importFromWkbInternal sample_wkb_import_env sample_ops (mk_collection [])
      [1, 7,0,0,0, 0,0,0,0] 9 32 wkbVariantOldOgc
     = (OGRERR_CORRUPT_DATA, mk_collection [], 0, [])
   \<and> importFromWkbInternal sample_wkb_import_env sample_ops (mk_collection [])
      [1, 7,0,0,0, 1,0,0,0, 1, 7,0,0,0, 0,0,0,0] 18 31 wkbVariantOldOgc
     = (OGRERR_CORRUPT_DATA, mk_collection [], 0, [Coll (mk_collection [])])
   \<and> importFromWktInternal sample_wkt_import_env sample_ops (mk_collection [])
      ''GEOMETRYCOLLECTION EMPTY'' 31
     = Some (OGRERR_NONE, mk_collection [], [], [])
   \<and> importFromWktInternal sample_wkt_import_env sample_ops (mk_collection [])
      ''GEOMETRYCOLLECTION EMPTY'' 32
     = Some (OGRERR_CORRUPT_DATA, mk_collection [], ''GEOMETRYCOLLECTION EMPTY'', [])
   \<and> importFromWktInternal sample_wkt_import_env sample_ops (mk_collection [])
      ''GEOMETRYCOLLECTION (GEOMETRYCOLLECTION EMPTY)'' 31
     = Some (OGRERR_CORRUPT_DATA, mk_collection [], '' (GEOMETRYCOLLECTION EMPTY)'',
             [Coll (mk_collection [])])"
proof -
  let ?c = "mk_collection [] :: sample_leaf OGRGeometryCollection"
  let ?bs = "[1, 7,0,0,0, 0,0,0,0] :: 8 word list"
  have l: "unat (31 :: 32 word) < 32" by simp
  have p: "importPreambleOfCollectionFromWkb sample_wkb_import_env ?c ?bs 9 wkbVariantOldOgc
             = (OGRERR_NONE, ?c, [], 0, 9, wkbNDR, 0)"
    by (simp add: sample_wkb_import_env_def sample_byte_def mk_collection_def set_papoGeoms_def)
  have q: "importPreambleFromWkt sample_wkt_import_env ?c ''GEOMETRYCOLLECTION EMPTY''
             = (OGRERR_NONE, ?c, [], [], False, False, True)"
    by (simp add: sample_wkt_import_env_def sample_token_def mk_collection_def)
  note g = C2_recursion_guard [of sample_wkb_import_env sample_ops ?c ?bs 9 wkbVariantOldOgc
      sample_wkt_import_env "''GEOMETRYCOLLECTION EMPTY''" 31]
  have a: "importFromWkbInternal sample_wkb_import_env sample_ops ?c ?bs 9 31 wkbVariantOldOgc
     = (OGRERR_NONE, ?c, 9, [])"
    using g l p by (simp add: mk_collection_def set_papoGeoms_def)
  have b: "importFromWkbInternal sample_wkb_import_env sample_ops ?c ?bs 9 32 wkbVariantOldOgc
     = (OGRERR_CORRUPT_DATA, ?c, 0, [])"
    using g by blast
  have c: "importFromWktInternal sample_wkt_import_env sample_ops ?c ''GEOMETRYCOLLECTION EMPTY'' 32
     = Some (OGRERR_CORRUPT_DATA, ?c, ''GEOMETRYCOLLECTION EMPTY'', [])"
    using g by blast
  have d: "importFromWktInternal sample_wkt_import_env sample_ops ?c ''GEOMETRYCOLLECTION EMPTY'' 31
     = Some (OGRERR_NONE, ?c, [], [])"
    by (simp add: importFromWktInternal.simps sample_wkt_import_env_def sample_token_def
        mk_collection_def)
  have e: "importFromWkbInternal sample_wkb_import_env sample_ops ?c
      [1, 7,0,0,0, 1,0,0,0, 1, 7,0,0,0, 0,0,0,0] 18 31 wkbVariantOldOgc
     = (OGRERR_CORRUPT_DATA, ?c, 0, [Coll ?c])"
    by (simp add: importFromWkbInternal.simps importFromWkb_loop.simps
        sample_wkb_import_env_def sample_byte_def mk_collection_def set_papoGeoms_def
        nGeomCount_def isCompatibleSubType_def delete_ptr_def)
  have f: "importFromWktInternal sample_wkt_import_env sample_ops ?c
      ''GEOMETRYCOLLECTION (GEOMETRYCOLLECTION EMPTY)'' 31
     = Some (OGRERR_CORRUPT_DATA, ?c, '' (GEOMETRYCOLLECTION EMPTY)'', [Coll ?c])"
    by (simp add: importFromWktInternal.simps importFromWkt_loop.simps
        importFromWkt_element_def sample_wkt_import_env_def sample_token_def
        mk_collection_def delete_ptr_def)
  from a b c d e f show ?thesis by simp
qed

section \<open>The measured-dimension check of the text decoder\<close>

text \<open>
  C5. At any iteration of the loop of \<open>importFromWktInternal\<close>, once the element
  \<open>poGeom\<close> has been read without error: if the container is measured, not 3D, and
  the element is not measured, the decoder returns \<open>OGRERR_CORRUPT_DATA\<close>, destroys the
  element and leaves the container as it is. In every other case (so whenever the
  container is 3D, or not measured) the element goes through \<open>addGeometryDirectly\<close>:
  its error is returned and the element destroyed, or the container it returns is
  the one the loop goes on with.
\<close>

theorem C5_wkt_measured_check:
  assumes "importFromWkt_element env sub pszInput = Some (OGRERR_NONE, Some poGeom, pszInput1, d)"
  shows "(\<not> Is3D ops (flags this) \<and> IsMeasured ops (flags this)
            \<and> \<not> IsMeasured ops (OGRGeometry_flags ops poGeom) \<longrightarrow>
          importFromWkt_loop env ops sub ppszInput this pszInput
            = Some (OGRERR_CORRUPT_DATA, this, ppszInput, d @ [poGeom]))
         \<and> (Is3D ops (flags this) \<or> \<not> IsMeasured ops (flags this)
              \<or> IsMeasured ops (OGRGeometry_flags ops poGeom) \<longrightarrow>
             (\<forall>eErr this1 g1.
                addGeometryDirectly ops (VSI_REALLOC_ok env (length (papoGeoms this))) this poGeom
                  = (eErr, this1, g1) \<longrightarrow>
                (eErr \<noteq> OGRERR_NONE \<longrightarrow>
                   importFromWkt_loop env ops sub ppszInput this pszInput
                     = Some (eErr, this1, ppszInput, d @ [g1]))
                \<and> (eErr = OGRERR_NONE \<longrightarrow>
                   importFromWkt_loop env ops sub ppszInput this pszInput
                     = (case OGRWktReadToken env pszInput1 of
                          (szToken, pszInput2) \<Rightarrow>
                            if first_char szToken = CHR '',''
                              then Option.bind
                                     (importFromWkt_loop env ops sub ppszInput this1 pszInput2)
                                     (\<lambda>(eErr2, this2, ppszInput2, d2).
                                        Some (eErr2, this2, ppszInput2, d @ d2))
                            else if first_char szToken \<noteq> CHR '')''
                              then Some (OGRERR_CORRUPT_DATA, this1, ppszInput, d)
                            else Some (OGRERR_NONE, this1, pszInput2, d)))))"
proof (intro conjI impI allI)
  assume "\<not> Is3D ops (flags this) \<and> IsMeasured ops (flags this)
            \<and> \<not> IsMeasured ops (OGRGeometry_flags ops poGeom)"
  then show "importFromWkt_loop env ops sub ppszInput this pszInput
            = Some (OGRERR_CORRUPT_DATA, this, ppszInput, d @ [poGeom])"
    using assms by (subst importFromWkt_loop.simps) (simp add: delete_ptr_def)
next
  fix eErr this1 g1
  assume g: "Is3D ops (flags this) \<or> \<not> IsMeasured ops (flags this)
              \<or> IsMeasured ops (OGRGeometry_flags ops poGeom)"
    and a: "addGeometryDirectly ops (VSI_REALLOC_ok env (length (papoGeoms this))) this poGeom
              = (eErr, this1, g1)"
  { assume "eErr \<noteq> OGRERR_NONE"
    then show "importFromWkt_loop env ops sub ppszInput this pszInput
                 = Some (eErr, this1, ppszInput, d @ [g1])"
      using assms g a by (subst importFromWkt_loop.simps) (auto simp: delete_ptr_def) }
  { assume "eErr = OGRERR_NONE"
    then show "importFromWkt_loop env ops sub ppszInput this pszInput
                     = (case OGRWktReadToken env pszInput1 of
                          (szToken, pszInput2) \<Rightarrow>
                            if first_char szToken = CHR '',''
                              then Option.bind
                                     (importFromWkt_loop env ops sub ppszInput this1 pszInput2)
                                     (\<lambda>(eErr2, this2, ppszInput2, d2).
                                        Some (eErr2, this2, ppszInput2, d @ d2))
                            else if first_char szToken \<noteq> CHR '')''
                              then Some (OGRERR_CORRUPT_DATA, this1, ppszInput, d)
                            else Some (OGRERR_NONE, this1, pszInput2, d))"
      using assms g a by (subst importFromWkt_loop.simps) auto }
qed

theorem C5_witness:
  "importFromWkt_loop sample_wkt_import_env sample_ops (\<lambda>poGC s. None) ''x''
      (OGRGeometryCollection 4 None OGRGeometryCollection_class []) ''POINT EMPTY)''
     = Some (OGRERR_CORRUPT_DATA, OGRGeometryCollection 4 None OGRGeometryCollection_class [],
             ''x'', [Leaf EmptyPoint])
   \<and> importFromWkt_loop sample_wkt_import_env sample_ops (\<lambda>poGC s. None) ''x''
      (OGRGeometryCollection 6 None OGRGeometryCollection_class []) ''POINT EMPTY)''
     = Some (OGRERR_NONE,
             OGRGeometryCollection 6 None OGRGeometryCollection_class [Some (Leaf EmptyPoint)],
             [], [])
   \<and> importFromWkt sample_wkt_import_env sample_ops (mk_collection [])
        ''GEOMETRYCOLLECTION M (POINT EMPTY)''
     = Some (OGRERR_CORRUPT_DATA, OGRGeometryCollection 4 None OGRGeometryCollection_class [],
             '' (POINT EMPTY)'', [Leaf EmptyPoint])
   \<and> importFromWkt sample_wkt_import_env sample_ops (mk_collection [])
        ''GEOMETRYCOLLECTION Z (POINT EMPTY)''
     = Some (OGRERR_NONE,
             OGRGeometryCollection 2 None OGRGeometryCollection_class [Some (Leaf EmptyPoint)],
             [], [])"
proof -
  let ?m = "OGRGeometryCollection 4 None OGRGeometryCollection_class []
              :: sample_leaf OGRGeometryCollection"
  let ?zm = "OGRGeometryCollection 6 None OGRGeometryCollection_class []
              :: sample_leaf OGRGeometryCollection"
  have el: "importFromWkt_element sample_wkt_import_env (\<lambda>poGC s. None) ''POINT EMPTY)''
              = Some (OGRERR_NONE, Some (Leaf EmptyPoint), '')'', [])"
    by (simp add: importFromWkt_element_def sample_wkt_import_env_def sample_token_def)
  have m: "\<not> Is3D sample_ops (flags ?m) \<and> IsMeasured sample_ops (flags ?m)
            \<and> \<not> IsMeasured sample_ops (OGRGeometry_flags sample_ops (Leaf EmptyPoint))"
    by (simp add: Is3D_def IsMeasured_def OGRGeometry_flags_def sample_ops_def)
  have a: "importFromWkt_loop sample_wkt_import_env sample_ops (\<lambda>poGC s. None) ''x'' ?m ''POINT EMPTY)''
     = Some (OGRERR_CORRUPT_DATA, ?m, ''x'', [Leaf EmptyPoint])"
    using C5_wkt_measured_check [OF el, of sample_ops ?m "''x''"] m by simp
  have zm: "Is3D sample_ops (flags ?zm)"
    by (simp add: Is3D_def sample_ops_def)
  have add: "addGeometryDirectly sample_ops
               (VSI_REALLOC_ok sample_wkt_import_env (length (papoGeoms ?zm))) ?zm (Leaf EmptyPoint)
             = (OGRERR_NONE,
                OGRGeometryCollection 6 None OGRGeometryCollection_class [Some (Leaf EmptyPoint)],
                Leaf EmptyPoint)"
    by (simp add: addGeometryDirectly_def isCompatibleSubType_def nGeomCount_def
        sample_ops_def sample_wkt_import_env_def set_papoGeoms_def)
  have tok: "OGRWktReadToken sample_wkt_import_env '')'' = ('')'', [])"
    by (simp add: sample_wkt_import_env_def sample_token_def)
  have b: "importFromWkt_loop sample_wkt_import_env sample_ops (\<lambda>poGC s. None) ''x'' ?zm ''POINT EMPTY)''
     = Some (OGRERR_NONE,
             OGRGeometryCollection 6 None OGRGeometryCollection_class [Some (Leaf EmptyPoint)],
             [], [])"
    using C5_wkt_measured_check [OF el, of sample_ops ?zm "''x''"] zm add tok
    by (simp add: first_char_def)
  have c: "importFromWkt sample_wkt_import_env sample_ops (mk_collection [])
        ''GEOMETRYCOLLECTION M (POINT EMPTY)''
     = Some (OGRERR_CORRUPT_DATA, ?m, '' (POINT EMPTY)'', [Leaf EmptyPoint])"
    by (simp add: importFromWkt_def importFromWktInternal.simps importFromWkt_loop.simps
      importFromWkt_element_def first_char_def delete_ptr_def
      Is3D_def IsMeasured_def OGRGeometry_flags_def set_flags_def
      sample_wkt_import_env_def sample_token_def mk_collection_def sample_ops_def)
  have d: "importFromWkt sample_wkt_import_env sample_ops (mk_collection [])
        ''GEOMETRYCOLLECTION Z (POINT EMPTY)''
     = Some (OGRERR_NONE,
             OGRGeometryCollection 2 None OGRGeometryCollection_class [Some (Leaf EmptyPoint)],
             [], [])"
    by (simp add: importFromWkt_def importFromWktInternal.simps importFromWkt_loop.simps
      importFromWkt_element_def first_char_def addGeometryDirectly_def isCompatibleSubType_def
      Is3D_def IsMeasured_def OGRGeometry_flags_def set_flags_def nGeomCount_def
      sample_wkt_import_env_def sample_token_def mk_collection_def sample_ops_def set_papoGeoms_def)
  from a b c d show ?thesis by simp
qed

section \<open>Failure inside the loop of the binary decoder\<close>

text \<open>
  The returns of one iteration of the loop of \<open>importFromWkbInternal\<close> before an
  element is decoded. The first two leave \<open>nGeomCount\<close> and the slots as they are, so
  the slots from \<open>iGeom\<close> on, still null, stay inside the count; the third, for an
  incompatible type, cuts the count down to \<open>iGeom\<close>.
\<close>

lemma importFromWkb_loop_not_enough_data:
  assumes "int iGeom < nGeomCount this" and "nSize < 9" and "nSize \<noteq> - 1"
  shows "importFromWkb_loop env ops this pabyData nSize nRecLevel eVariant nDataOffset iGeom
           = (OGRERR_NOT_ENOUGH_DATA, this, 0, [])"
  using assms by (subst importFromWkb_loop.simps) simp

lemma importFromWkb_loop_read_type_failure:
  assumes "int iGeom < nGeomCount this" and "\<not> (nSize < 9 \<and> nSize \<noteq> - 1)"
      and "OGRReadWKBGeometryType env (drop (unat nDataOffset) pabyData) eVariant
             = (eErr, eSubGeomType)"
      and "eErr \<noteq> OGRERR_NONE"
  shows "importFromWkb_loop env ops this pabyData nSize nRecLevel eVariant nDataOffset iGeom
           = (eErr, this, 0, [])"
  using assms by (subst importFromWkb_loop.simps) auto

lemma importFromWkb_loop_incompatible:
  assumes "int iGeom < nGeomCount this" and "\<not> (nSize < 9 \<and> nSize \<noteq> - 1)"
      and "OGRReadWKBGeometryType env (drop (unat nDataOffset) pabyData) eVariant
             = (OGRERR_NONE, eSubGeomType)"
      and "\<not> isCompatibleSubType ops this eSubGeomType"
  shows "importFromWkb_loop env ops this pabyData nSize nRecLevel eVariant nDataOffset iGeom
           = (OGRERR_CORRUPT_DATA, set_papoGeoms this (take iGeom (papoGeoms this)), 0, [])"
  using assms by (subst importFromWkb_loop.simps) auto

text \<open>
  C1 fails on two inputs. A collection announcing one element whose type code is
  99: \<open>OGRReadWKBGeometryType\<close> fails, and \<open>importFromWkb\<close> returns that error with a count
  of 1 and a null pointer at index 0, no element being stored. A collection
  announcing two elements, a point of 21 bytes followed by 5 bytes: the second
  iteration finds \<open>nSize < 9\<close>, and \<open>importFromWkb\<close> returns \<open>OGRERR_NOT_ENOUGH_DATA\<close> with a
  count of 2, one element stored and a null pointer at index 1.
\<close>

theorem C1_early_returns_keep_null_slots:
  "importFromWkb sample_wkb_import_env sample_ops (mk_collection [])
      [1, 7,0,0,0, 1,0,0,0, 1, 99,0,0,0, 0,0,0,0] 18 wkbVariantOldOgc
     = (OGRERR_UNSUPPORTED_GEOMETRY_TYPE,
        OGRGeometryCollection 0 None OGRGeometryCollection_class [None], 0, [])
   \<and> getNumGeometries (OGRGeometryCollection 0 None OGRGeometryCollection_class
                         [None :: sample_leaf OGRGeometry option]) = 1
   \<and> importFromWkb sample_wkb_import_env sample_ops (mk_collection [])
      ([1, 7,0,0,0, 2,0,0,0, 1, 1,0,0,0, 0,0,0,0,0,0,0,0, 0,0,0,0,0,0,0,0, 0,0,0,0,0])
      35 wkbVariantOldOgc
     = (OGRERR_NOT_ENOUGH_DATA,
        OGRGeometryCollection 0 None OGRGeometryCollection_class [Some (Leaf Point), None], 0, [])
   \<and> getNumGeometries (OGRGeometryCollection 0 None OGRGeometryCollection_class
                         [Some (Leaf Point), None]) = 2
   \<and> getGeometryRef (OGRGeometryCollection 0 None OGRGeometryCollection_class
                       [Some (Leaf Point), None]) 1 = None"
proof (intro conjI)
  have r: "replicate 2 (None :: sample_leaf OGRGeometry option) = [None, None]"
    by (simp add: numeral_2_eq_2)
  show "importFromWkb sample_wkb_import_env sample_ops (mk_collection [])
      [1, 7,0,0,0, 1,0,0,0, 1, 99,0,0,0, 0,0,0,0] 18 wkbVariantOldOgc
     = (OGRERR_UNSUPPORTED_GEOMETRY_TYPE,
        OGRGeometryCollection 0 None OGRGeometryCollection_class [None], 0, [])"
    by (simp add: importFromWkb_def importFromWkbInternal.simps importFromWkb_loop.simps
        sample_wkb_import_env_def sample_byte_def mk_collection_def set_papoGeoms_def
        nGeomCount_def)
  show "importFromWkb sample_wkb_import_env sample_ops (mk_collection [])
      ([1, 7,0,0,0, 2,0,0,0, 1, 1,0,0,0, 0,0,0,0,0,0,0,0, 0,0,0,0,0,0,0,0, 0,0,0,0,0])
      35 wkbVariantOldOgc
     = (OGRERR_NOT_ENOUGH_DATA,
        OGRGeometryCollection 0 None OGRGeometryCollection_class [Some (Leaf Point), None], 0, [])"
    by (simp add: importFromWkb_def importFromWkbInternal.simps importFromWkb_loop.simps
        sample_wkb_import_env_def sample_byte_def mk_collection_def set_papoGeoms_def
        nGeomCount_def isCompatibleSubType_def store_element_def promote_leaf_def
        Is3D_def IsMeasured_def OGRGeometry_flags_def sample_ops_def r)
  show "getNumGeometries (OGRGeometryCollection 0 None OGRGeometryCollection_class
                         [None :: sample_leaf OGRGeometry option]) = 1"
    by (simp add: getNumGeometries_def nGeomCount_def)
  show "getNumGeometries (OGRGeometryCollection 0 None OGRGeometryCollection_class
                         [Some (Leaf Point), None]) = 2"
    by (simp add: getNumGeometries_def nGeomCount_def)
  show "getGeometryRef (OGRGeometryCollection 0 None OGRGeometryCollection_class
                       [Some (Leaf Point), None]) 1 = None"
    by (simp add: getGeometryRef_def nGeomCount_def)
qed

end
